theory Spec2Isabelle
  imports Main "HOL-Library.Word"
begin

unbundle bit_operations_syntax

section \<open>The Burst Hash Trie of Tempesta DB (htrie.c, htrie.h)\<close>

text \<open>
  A shallow embedding of \<^verbatim>\<open>src/htrie/htrie.c\<close>, executed by one thread on one CPU.
  The mapped region is modelled by typed views indexed by byte offsets from the
  database header \<^verbatim>\<open>dbh\<close> (so \<^verbatim>\<open>TDB_PTR(dbh, o)\<close> is the offset \<open>o\<close> itself and
  \<^verbatim>\<open>TDB_OFF\<close> is its inverse): the index words, the bucket headers, and the records.
  Views at different offsets are independent of each other.
  A \<^verbatim>\<open>BUG_ON\<close> that fires, and a loop that can only spin, are results of their own.

  The fields of the header are kept apart from the views. In the program a store at the
  offset 0 lands on the header, and the sources do not declare the layout of \<^verbatim>\<open>TdbHdr\<close>:
  where a refused allocation makes \<^verbatim>\<open>tdb_htrie_init_bucket\<close> or \<^verbatim>\<open>bzero_fast\<close> write at
  the offset 0, the model changes the views at 0 and leaves the header fields as they were.
  What is shown below of the header after a call holds where the allocator grants what the
  call asks of it.
\<close>

subsection \<open>Constants of htrie.h\<close>

text \<open>\<^verbatim>\<open>TdbHtrieNode\<close> is 16 unsigned ints and "exactly one cache line", so
  \<^verbatim>\<open>L1_CACHE_BYTES\<close> is 64.\<close>

definition L1_CACHE_BYTES :: nat where
  "L1_CACHE_BYTES = 64"

definition TDB_HTRIE_NODE_SZ :: nat where
  "TDB_HTRIE_NODE_SZ = L1_CACHE_BYTES"

definition TDB_HTRIE_MINDREC :: nat where
  "TDB_HTRIE_MINDREC = L1_CACHE_BYTES * 2"

definition TDB_O2DI :: "nat \<Rightarrow> nat" where
  "TDB_O2DI o' = o' div TDB_HTRIE_MINDREC"

definition TDB_DI2O :: "nat \<Rightarrow> nat" where
  "TDB_DI2O i = i * TDB_HTRIE_MINDREC"

definition TDB_II2O :: "nat \<Rightarrow> nat" where
  "TDB_II2O i = i * TDB_HTRIE_NODE_SZ"

definition TDB_HTRIE_IALIGN :: "nat \<Rightarrow> nat" where
  "TDB_HTRIE_IALIGN n = ((n + (L1_CACHE_BYTES - 1)) div L1_CACHE_BYTES) * L1_CACHE_BYTES"

definition TDB_HTRIE_BITS :: nat where
  "TDB_HTRIE_BITS = 4"

definition TDB_HTRIE_FANOUT :: nat where
  "TDB_HTRIE_FANOUT = 2 ^ TDB_HTRIE_BITS"

definition TDB_HTRIE_KMASK :: "64 word" where
  "TDB_HTRIE_KMASK = 15"

definition BITS_PER_LONG :: nat where
  "BITS_PER_LONG = 64"

definition TDB_HTRIE_RESOLVED :: "nat \<Rightarrow> bool" where
  "TDB_HTRIE_RESOLVED b = (b + TDB_HTRIE_BITS > BITS_PER_LONG)"

definition TDB_HTRIE_DBIT :: "32 word" where
  "TDB_HTRIE_DBIT = push_bit 31 1"

definition TDB_HTRIE_IDX :: "64 word \<Rightarrow> nat \<Rightarrow> nat" where
  "TDB_HTRIE_IDX k b = unat (drop_bit b k AND TDB_HTRIE_KMASK)"

definition TDB_MAGIC :: "64 word" where
  "TDB_MAGIC = 0x434947414D424454"

definition ENOMEM :: int where "ENOMEM = 12"
definition EAGAIN :: int where "EAGAIN = 11"
definition EINVAL :: int where "EINVAL = 22"

subsection \<open>What the sources use and do not declare\<close>

text \<open>
  htrie.c uses constants, macros and types of \<^verbatim>\<open>tdb.h\<close>, \<^verbatim>\<open>alloc.h\<close> and
  \<^verbatim>\<open>kernel_mocks.h\<close>, which are not part of the sources. They are parameters of the
  model: every function below takes them in a record \<open>c\<close>.
  \<open>flz\<close> is the bit index that \<^verbatim>\<open>flz()\<close> finds in a collision map.
\<close>

record htrie_cfg =
  TDB_HTRIE_COLL_MAX :: nat
  TDB_HTRIE_BURST_MIN_BITS :: nat
  TDB_HTRIE_BCKT_SLOTS_N :: nat
  TDB_HTRIE_SLOT2BIT :: "nat \<Rightarrow> 64 word"
  flz :: "64 word \<Rightarrow> nat"
  TDB_I2O :: "nat \<Rightarrow> nat"
  TDB_F_INPLACE :: "32 word"
  TDB_BLK_SZ :: nat
  TDB_MAX_SHARD_SZ :: nat
  TDB_EXT_SZ :: nat
  sizeof_TdbHdr :: nat
  sizeof_LfStack :: nat
  sizeof_TdbExt :: nat
  sizeof_TdbHtrieBucket :: nat
  sizeof_TdbFRec :: nat
  sizeof_TdbVRec :: nat

subsection \<open>The mapped region\<close>

text \<open>A pointer to a record: a slot of a bucket (\<^verbatim>\<open>__htrie_bckt_rec(b, slot)\<close>), or
  a place in the data area.\<close>

datatype recptr = SlotPtr nat int | DataPtr nat

text \<open>What is stored at a record pointer, under the views \<^verbatim>\<open>TdbRec\<close>/\<^verbatim>\<open>TdbFRec\<close>
  (key, off, data) and \<^verbatim>\<open>TdbVRec\<close> (chunk_next, len, data).\<close>

record cell =
  r_key :: "64 word"
  r_off :: nat
  vr_chunk_next :: "32 word"
  vr_len :: nat
  r_data :: "8 word list"

text \<open>Calls into the external allocator that give memory back.\<close>

datatype alloc_ev = Rollback_index nat | Rollback_bucket nat | Rollback_data nat | Free_blk nat

text \<open>
  The header \<^verbatim>\<open>TdbHdr\<close> (magic, flags, rec_len, root_bits, generation, the allocator's
  \<^verbatim>\<open>ext_max\<close>, the freelists \<open>dcache\<close>), the per-CPU data of the running CPU
  (\<open>pcpu_generation\<close>, \<open>free_bckt_h\<close>, \<open>free_bckt_t\<close>), and the region:
  \<open>imem a\<close> is the unsigned int at byte offset \<open>a\<close> of the index,
  \<open>col_map b\<close> and \<open>bnext b\<close> are the header of the bucket at offset \<open>b\<close>,
  \<open>rmem p\<close> is the record at \<open>p\<close>.
  The external allocator is an oracle: \<open>fix_q\<close> and \<open>data_q\<close> hold what its next calls
  \<^verbatim>\<open>tdb_alloc_fix\<close> and \<^verbatim>\<open>tdb_alloc_data\<close> return (offset 0: it refuses; an empty
  queue refuses; \<^verbatim>\<open>tdb_alloc_data\<close> also returns the length it granted),
  \<open>alloc_log\<close> what was given back to it.
\<close>

record tdb =
  magic :: "64 word"
  flags :: "32 word"
  rec_len :: nat
  root_bits :: nat
  generation :: nat
  ext_max :: nat
  dcache :: "nat \<Rightarrow> nat list"
  pcpu_generation :: nat
  free_bckt_h :: nat
  free_bckt_t :: nat
  imem :: "nat \<Rightarrow> 32 word"
  col_map :: "nat \<Rightarrow> 64 word"
  bnext :: "nat \<Rightarrow> nat"
  rmem :: "recptr \<Rightarrow> cell"
  fix_q :: "nat list"
  data_q :: "(nat \<times> nat) list"
  alloc_log :: "alloc_ev list"
  g_burst_collision_no_mem :: nat

text \<open>How a call ends without returning: a \<^verbatim>\<open>BUG_ON\<close> that fires, with
  \<^verbatim>\<open>BUG_ON(len != dbh->rec_len)\<close> of \<^verbatim>\<open>tdb_htrie_create_rec\<close> told apart from the others
  as \<open>BUG_LEN\<close>; a loop that can only spin; a bound of the model that ran out.\<close>

datatype fault = BUG | BUG_LEN | SPIN | FUEL

definition LONG_MAX :: nat where
  "LONG_MAX = 2 ^ 63 - 1"

definition TDB_HTRIE_VARLENRECS :: "tdb \<Rightarrow> bool" where
  "TDB_HTRIE_VARLENRECS h = (rec_len h = 0)"

definition inplace :: "htrie_cfg \<Rightarrow> tdb \<Rightarrow> bool" where
  "inplace c dbh = (flags dbh AND TDB_F_INPLACE c \<noteq> 0)"

subsection \<open>Generations\<close>

definition tdb_htrie_observe_generation :: "tdb \<Rightarrow> tdb" where
  "tdb_htrie_observe_generation dbh = dbh\<lparr>pcpu_generation := generation dbh\<rparr>"

text \<open>Modelled from the spec: \<^verbatim>\<open>tdb_htrie_free_generation\<close> is called and not defined in
  the sources; a reader publishes the sentinel MAX on exit.\<close>

definition tdb_htrie_free_generation :: "tdb \<Rightarrow> tdb" where
  "tdb_htrie_free_generation dbh = dbh\<lparr>pcpu_generation := LONG_MAX\<rparr>"

text \<open>With one thread, the wait loop either passes at once or spins forever.\<close>

definition tdb_htrie_synchronize_generation :: "tdb \<Rightarrow> fault + tdb" where
  "tdb_htrie_synchronize_generation dbh =
     (let gen = generation dbh + 1;
          dbh1 = dbh\<lparr>generation := gen\<rparr>
      in if pcpu_generation dbh1 \<le> gen then Inl SPIN else Inr dbh1)"

subsection \<open>Sizes\<close>

definition tdb_hdr_sz :: "htrie_cfg \<Rightarrow> tdb \<Rightarrow> nat" where
  "tdb_hdr_sz c dbh = sizeof_TdbHdr c + sizeof_LfStack c * (if rec_len dbh \<noteq> 0 then 1 else 4)"

definition tdb_dbsz :: "htrie_cfg \<Rightarrow> tdb \<Rightarrow> nat" where
  "tdb_dbsz c dbh = ext_max dbh * TDB_EXT_SZ c"

definition tdb_htrie_root :: "htrie_cfg \<Rightarrow> tdb \<Rightarrow> nat" where
  "tdb_htrie_root c dbh = TDB_HTRIE_IALIGN (tdb_hdr_sz c dbh)"

definition sizeof_TdbHtrieNode :: nat where
  "sizeof_TdbHtrieNode = TDB_HTRIE_FANOUT * 4"

definition tdb_htrie_root_sz :: "tdb \<Rightarrow> nat" where
  "tdb_htrie_root_sz dbh = push_bit (root_bits dbh - TDB_HTRIE_BITS) sizeof_TdbHtrieNode"

text \<open>\<^verbatim>\<open>node->shifts[i]\<close> of the node at byte offset \<open>node\<close>.\<close>

definition shifts :: "tdb \<Rightarrow> nat \<Rightarrow> nat \<Rightarrow> 32 word" where
  "shifts dbh node i = imem dbh (node + 4 * i)"

definition set_shifts :: "tdb \<Rightarrow> nat \<Rightarrow> nat \<Rightarrow> 32 word \<Rightarrow> tdb" where
  "set_shifts dbh node i v = dbh\<lparr>imem := (imem dbh)(node + 4 * i := v)\<rparr>"

subsection \<open>Buckets and their allocation\<close>

text \<open>The stores \<^verbatim>\<open>b->col_map = 0\<close> and \<^verbatim>\<open>b->next = 0\<close>. For the bucket at the offset 0,
  which \<^verbatim>\<open>tdb_htrie_alloc_bucket\<close> passes when the allocator refuses, they land on the first
  bytes of the header in the program; here they change the views at 0 only.\<close>

definition tdb_htrie_init_bucket :: "tdb \<Rightarrow> nat \<Rightarrow> tdb" where
  "tdb_htrie_init_bucket dbh b =
     dbh\<lparr>col_map := (col_map dbh)(b := 0), bnext := (bnext dbh)(b := 0)\<rparr>"

text \<open>\<^verbatim>\<open>int inplace = dbh->flags & TDB_F_INPLACE\<close> is the masked flag word itself; the
  product with the unsigned int \<^verbatim>\<open>rec_len\<close> is taken in 32 bits, the sum in
  \<^verbatim>\<open>size_t\<close>.\<close>

definition tdb_htrie_bckt_sz :: "htrie_cfg \<Rightarrow> tdb \<Rightarrow> nat" where
  "tdb_htrie_bckt_sz c dbh =
     (let inpl = unat (flags dbh AND TDB_F_INPLACE c);
          n = int (sizeof_TdbHtrieBucket c)
      in nat ((n + (int (TDB_HTRIE_COLL_MAX c) - int (TDB_HTRIE_BURST_MIN_BITS c))
                   * int (sizeof_TdbFRec c + (rec_len dbh * inpl) mod 2 ^ 32)) mod 2 ^ 64))"

definition tdb_htrie_bckt_burst_threshold :: "htrie_cfg \<Rightarrow> nat \<Rightarrow> bool" where
  "tdb_htrie_bckt_burst_threshold c bit' = (bit' < TDB_HTRIE_BURST_MIN_BITS c)"

definition tdb_alloc_fix :: "tdb \<Rightarrow> nat \<times> tdb" where
  "tdb_alloc_fix dbh =
     (case fix_q dbh of [] \<Rightarrow> (0, dbh) | o' # q \<Rightarrow> (o', dbh\<lparr>fix_q := q\<rparr>))"

definition tdb_alloc_data :: "tdb \<Rightarrow> nat \<Rightarrow> nat \<times> nat \<times> tdb" where
  "tdb_alloc_data dbh len =
     (case data_q dbh of [] \<Rightarrow> (0, len, dbh) | (o', n) # q \<Rightarrow> (o', n, dbh\<lparr>data_q := q\<rparr>))"

definition tdb_alloc_rollback :: "alloc_ev \<Rightarrow> tdb \<Rightarrow> tdb" where
  "tdb_alloc_rollback ev dbh = dbh\<lparr>alloc_log := alloc_log dbh @ [ev]\<rparr>"

text \<open>\<^verbatim>\<open>bzero_fast(TDB_PTR(dbh, o), sizeof(TdbHtrieNode))\<close>. At the offset 0 of a refused
  allocation the program zeroes the first cache line of the header; here the index words at
  0 are zeroed and the header fields stay.\<close>

definition bzero_node :: "tdb \<Rightarrow> nat \<Rightarrow> tdb" where
  "bzero_node dbh o' =
     dbh\<lparr>imem := (\<lambda>a. if o' \<le> a \<and> a < o' + sizeof_TdbHtrieNode then 0 else imem dbh a)\<rparr>"

definition tdb_htrie_alloc_index :: "tdb \<Rightarrow> fault + (nat \<times> tdb)" where
  "tdb_htrie_alloc_index dbh =
     (case tdb_alloc_fix dbh of (o', dbh1) \<Rightarrow>
        if TDB_HTRIE_IALIGN o' \<noteq> o' then Inl BUG
        else Inr (o', bzero_node dbh1 o'))"

definition tdb_htrie_rollback_index :: "tdb \<Rightarrow> tdb" where
  "tdb_htrie_rollback_index dbh = tdb_alloc_rollback (Rollback_index sizeof_TdbHtrieNode) dbh"

text \<open>The result is the pointer \<^verbatim>\<open>b\<close>: \<open>Some o\<close> is \<^verbatim>\<open>TDB_PTR(dbh, o)\<close>, \<open>None\<close> is
  \<^verbatim>\<open>NULL\<close>. The function has no path that returns \<^verbatim>\<open>NULL\<close>.\<close>

definition tdb_htrie_alloc_bucket :: "htrie_cfg \<Rightarrow> tdb \<Rightarrow> nat option \<times> tdb" where
  "tdb_htrie_alloc_bucket c dbh =
     (if free_bckt_h dbh \<noteq> 0 then
        (let b = free_bckt_h dbh;
             dbh1 = dbh\<lparr>free_bckt_h := bnext dbh b\<rparr>;
             dbh2 = (if free_bckt_h dbh1 = 0 then dbh1\<lparr>free_bckt_t := 0\<rparr> else dbh1)
         in (Some b, tdb_htrie_init_bucket dbh2 b))
      else
        (case tdb_alloc_fix dbh of (o', dbh1) \<Rightarrow> (Some o', tdb_htrie_init_bucket dbh1 o')))"

definition tdb_htrie_rollback_bucket :: "htrie_cfg \<Rightarrow> tdb \<Rightarrow> tdb" where
  "tdb_htrie_rollback_bucket c dbh =
     tdb_alloc_rollback (Rollback_bucket (tdb_htrie_bckt_sz c dbh)) dbh"

definition tdb_htrie_reclaim_bucket :: "tdb \<Rightarrow> nat \<Rightarrow> fault + tdb" where
  "tdb_htrie_reclaim_bucket dbh b =
     (if free_bckt_t dbh \<noteq> 0 then
        Inr (dbh\<lparr>bnext := (bnext dbh)(free_bckt_t dbh := b), free_bckt_t := b\<rparr>)
      else if free_bckt_h dbh \<noteq> 0 then Inl BUG
      else Inr (dbh\<lparr>free_bckt_h := b, free_bckt_t := b\<rparr>))"

subsection \<open>Data chunks\<close>

text \<open>The result is the index of the freelist in \<^verbatim>\<open>dbh->dcache\<close>, \<open>None\<close> for
  \<^verbatim>\<open>NULL\<close>.\<close>

definition htrie_dcache :: "tdb \<Rightarrow> nat \<Rightarrow> nat option" where
  "htrie_dcache dbh sz =
     (if TDB_HTRIE_VARLENRECS dbh then Some 0
      else if sz \<le> 256 then Some 0
      else if sz \<le> 512 then Some 2
      else if sz \<le> 1024 then Some 3
      else if sz \<le> 2048 then Some 4
      else None)"

text \<open>The result is the offset and \<^verbatim>\<open>*len\<close>. A chunk popped from a freelist leaves
  \<^verbatim>\<open>*len\<close> as it was.\<close>

definition tdb_htrie_alloc_data :: "htrie_cfg \<Rightarrow> tdb \<Rightarrow> nat \<Rightarrow> nat \<times> nat \<times> tdb" where
  "tdb_htrie_alloc_data c dbh len =
     (let overhead = (if TDB_HTRIE_VARLENRECS dbh then sizeof_TdbVRec c else 0) in
      case htrie_dcache dbh (len + overhead) of
        Some d \<Rightarrow>
          (case dcache dbh d of
             chunk # rest \<Rightarrow> (chunk, len, dbh\<lparr>dcache := (dcache dbh)(d := rest)\<rparr>)
           | [] \<Rightarrow> tdb_alloc_data dbh len)
      | None \<Rightarrow> tdb_alloc_data dbh len)"

definition tdb_htrie_free_data :: "htrie_cfg \<Rightarrow> tdb \<Rightarrow> nat \<Rightarrow> nat \<Rightarrow> fault + tdb" where
  "tdb_htrie_free_data c dbh addr size' =
     (case htrie_dcache dbh size' of
        Some d \<Rightarrow> Inr (dbh\<lparr>dcache := (dcache dbh)(d := addr # dcache dbh d)\<rparr>)
      | None \<Rightarrow>
          if size' \<noteq> TDB_BLK_SZ c then Inl BUG
          else Inr (dbh\<lparr>alloc_log := alloc_log dbh @ [Free_blk addr]\<rparr>))"

definition tdb_htrie_rollback_data :: "htrie_cfg \<Rightarrow> tdb \<Rightarrow> nat \<Rightarrow> tdb" where
  "tdb_htrie_rollback_data c dbh len =
     (let overhead = (if TDB_HTRIE_VARLENRECS dbh then sizeof_TdbVRec c else 0)
      in tdb_alloc_rollback (Rollback_data (overhead + tdb_htrie_bckt_sz c dbh)) dbh)"

subsection \<open>Descending the trie\<close>

text \<open>The loop of \<^verbatim>\<open>tdb_htrie_descend\<close> from the label \<^verbatim>\<open>retry\<close>, with the reference
  \<open>o\<close> just read. The result is the returned offset, \<^verbatim>\<open>*bits\<close> and \<^verbatim>\<open>*node\<close>.\<close>

function descend_retry ::
  "htrie_cfg \<Rightarrow> tdb \<Rightarrow> 64 word \<Rightarrow> nat \<Rightarrow> nat \<Rightarrow> 32 word \<Rightarrow> fault + (nat \<times> nat \<times> nat)" where
  "descend_retry c dbh key bits node o' =
     (if o' \<noteq> 0 \<and> (TDB_I2O c (unat (o' AND NOT TDB_HTRIE_DBIT)) < tdb_hdr_sz c dbh + sizeof_TdbExt c
                   \<or> TDB_I2O c (unat (o' AND NOT TDB_HTRIE_DBIT)) > tdb_dbsz c dbh)
      then Inl BUG
      else if o' AND TDB_HTRIE_DBIT \<noteq> 0 then
        (if o' XOR TDB_HTRIE_DBIT = 0 then Inl BUG
         else Inr (TDB_I2O c (unat (o' XOR TDB_HTRIE_DBIT)), bits + TDB_HTRIE_BITS, node))
      else if o' = 0 then Inr (0, bits, node)
      else if TDB_HTRIE_RESOLVED (bits + TDB_HTRIE_BITS) then Inl BUG
      else descend_retry c dbh key (bits + TDB_HTRIE_BITS) (TDB_I2O c (unat o'))
             (shifts dbh (TDB_I2O c (unat o')) (TDB_HTRIE_IDX key (bits + TDB_HTRIE_BITS))))"
  by pat_completeness auto
termination
  by (relation "measure (\<lambda>(c, dbh, key, bits, node, o'). BITS_PER_LONG - bits)")
     (auto simp: TDB_HTRIE_RESOLVED_def TDB_HTRIE_BITS_def BITS_PER_LONG_def)

definition tdb_htrie_descend ::
  "htrie_cfg \<Rightarrow> tdb \<Rightarrow> 64 word \<Rightarrow> nat \<Rightarrow> fault + (nat \<times> nat \<times> nat)" where
  "tdb_htrie_descend c dbh key bits =
     (if bits > 0 then Inl BUG
      else descend_retry c dbh key bits (tdb_htrie_root c dbh)
             (shifts dbh (tdb_htrie_root c dbh) (unat key mod 2 ^ root_bits dbh)))"

subsection \<open>Records and bucket slots\<close>

text \<open>\<^verbatim>\<open>if (data) memcpy_fast(ptr, data, len)\<close>.\<close>

definition memcpy_data :: "tdb \<Rightarrow> recptr \<Rightarrow> 8 word list option \<Rightarrow> nat \<Rightarrow> tdb" where
  "memcpy_data dbh ptr data len =
     (case data of
        None \<Rightarrow> dbh
      | Some d \<Rightarrow> dbh\<lparr>rmem := (rmem dbh)(ptr := (rmem dbh ptr)\<lparr>r_data := take len d\<rparr>)\<rparr>)"

text \<open>The returned record \<^verbatim>\<open>r\<close> is the pointer \<open>ptr\<close> that was passed as an offset.\<close>

definition tdb_htrie_create_rec ::
  "htrie_cfg \<Rightarrow> tdb \<Rightarrow> recptr \<Rightarrow> 64 word \<Rightarrow> 8 word list option \<Rightarrow> nat \<Rightarrow> fault + tdb" where
  "tdb_htrie_create_rec c dbh ptr key data len =
     (if data = None \<and> \<not> inplace c dbh then Inl BUG
      else if TDB_HTRIE_VARLENRECS dbh then
        (if vr_len (rmem dbh ptr) \<noteq> 0 then Inl BUG
         else if vr_chunk_next (rmem dbh ptr) \<noteq> 0 then Inl BUG
         else Inr (memcpy_data
                     (dbh\<lparr>rmem := (rmem dbh)(ptr := (rmem dbh ptr)\<lparr>vr_chunk_next := 0, vr_len := len\<rparr>)\<rparr>)
                     ptr data len))
      else if inplace c dbh then
        (if r_key (rmem dbh ptr) \<noteq> 0 then Inl BUG
         else if len \<noteq> rec_len dbh then Inl BUG_LEN
         else Inr (memcpy_data
                     (dbh\<lparr>rmem := (rmem dbh)(ptr := (rmem dbh ptr)\<lparr>r_key := key\<rparr>)\<rparr>)
                     ptr data len))
      else Inr (memcpy_data dbh ptr data len))"

definition htrie_bckt_bit2slot :: "htrie_cfg \<Rightarrow> nat \<Rightarrow> int" where
  "htrie_bckt_bit2slot c bit' = int (TDB_HTRIE_COLL_MAX c) - int bit'"

text \<open>The result is an unsigned int; its callers keep it in an unsigned long.\<close>

definition htrie_bckt_slot2bit :: "htrie_cfg \<Rightarrow> int \<Rightarrow> 64 word" where
  "htrie_bckt_slot2bit c slot = ucast (word_of_int (int (TDB_HTRIE_COLL_MAX c) - slot) :: 32 word)"

text \<open>\<^verbatim>\<open>TDB_OFF(dbh, *rec)\<close> where metadata is written for a record out of the bucket:
  \<^verbatim>\<open>*rec\<close> is then the record that \<^verbatim>\<open>tdb_htrie_create_rec\<close> returned for the offset
  of the data area; no other pointer reaches this place.\<close>

definition rec_off :: "recptr option \<Rightarrow> nat" where
  "rec_off rec = (case rec of Some (DataPtr o') \<Rightarrow> o' | _ \<Rightarrow> 0)"

text \<open>The result is the region and \<^verbatim>\<open>*rec\<close>.\<close>

definition htrie_bckt_write_metadata ::
  "htrie_cfg \<Rightarrow> tdb \<Rightarrow> nat \<Rightarrow> 64 word \<Rightarrow> 8 word list option \<Rightarrow> nat \<Rightarrow> int \<Rightarrow> recptr option
     \<Rightarrow> fault + (tdb \<times> recptr option)" where
  "htrie_bckt_write_metadata c dbh b key data len slot rec =
     (if inplace c dbh then
        (case tdb_htrie_create_rec c dbh (SlotPtr b slot) key data len of
           Inl e \<Rightarrow> Inl e
         | Inr dbh1 \<Rightarrow> Inr (dbh1, Some (SlotPtr b slot)))
      else
        Inr (dbh\<lparr>rmem := (rmem dbh)(SlotPtr b slot :=
                   (rmem dbh (SlotPtr b slot))\<lparr>r_key := key, r_off := rec_off rec\<rparr>)\<rparr>, rec))"

text \<open>\<^verbatim>\<open>b->col_map |= bit\<close> ors the index \<open>bit\<close> itself into the map.\<close>

definition htrie_bckt_copy_metadata :: "htrie_cfg \<Rightarrow> tdb \<Rightarrow> nat \<Rightarrow> recptr \<Rightarrow> fault + tdb" where
  "htrie_bckt_copy_metadata c dbh b rec =
     (let bit' = flz c (col_map dbh b);
          slot = htrie_bckt_bit2slot c bit'
      in if tdb_htrie_bckt_burst_threshold c bit' then Inl BUG
         else
           (let dbh1 = dbh\<lparr>col_map := (col_map dbh)(b := col_map dbh b OR word_of_nat bit')\<rparr>
            in if inplace c dbh1 then
                 tdb_htrie_create_rec c dbh1 (SlotPtr b slot) (r_key (rmem dbh1 rec))
                   (Some (r_data (rmem dbh1 rec))) (rec_len dbh1)
               else
                 Inr (dbh1\<lparr>rmem := (rmem dbh1)(SlotPtr b slot :=
                        (rmem dbh1 (SlotPtr b slot))\<lparr>r_key := r_key (rmem dbh1 rec),
                                                       r_off := r_off (rmem dbh1 rec)\<rparr>)\<rparr>)))"

text \<open>\<^verbatim>\<open>int atomic_cmpxchg(atomic_t *v, int old, int new)\<close> on the index word at byte
  offset \<open>a\<close>, as one thread runs it: the result is the word found there.\<close>

definition atomic_cmpxchg :: "tdb \<Rightarrow> nat \<Rightarrow> 32 word \<Rightarrow> 32 word \<Rightarrow> 32 word \<times> tdb" where
  "atomic_cmpxchg dbh a old new =
     (if imem dbh a = old then (imem dbh a, dbh\<lparr>imem := (imem dbh)(a := new)\<rparr>)
      else (imem dbh a, dbh))"

text \<open>The comparison of the int that \<^verbatim>\<open>atomic_cmpxchg\<close> returns with an unsigned long:
  the int is sign-extended.\<close>

definition int_eq_ulong :: "32 word \<Rightarrow> nat \<Rightarrow> bool" where
  "int_eq_ulong r n = (unat (scast r :: 64 word) = n)"

text \<open>The result is the return code, the region and \<^verbatim>\<open>*rec\<close>.\<close>

definition htrie_insert_new_bckt ::
  "htrie_cfg \<Rightarrow> tdb \<Rightarrow> 64 word \<Rightarrow> nat \<Rightarrow> nat \<Rightarrow> 8 word list option \<Rightarrow> nat \<Rightarrow> recptr option
     \<Rightarrow> fault + (int \<times> tdb \<times> recptr option)" where
  "htrie_insert_new_bckt c dbh key bits node data len rec =
     (case tdb_htrie_alloc_bucket c dbh of
        (None, dbh1) \<Rightarrow> Inr (- ENOMEM, dbh1, rec)
      | (Some bckt, dbh1) \<Rightarrow>
          (case htrie_bckt_write_metadata c dbh1 bckt key data len 0 rec of
             Inl e \<Rightarrow> Inl e
           | Inr (dbh2, rec1) \<Rightarrow>
               (let dbh3 = dbh2\<lparr>col_map := (col_map dbh2)
                                   (bckt := TDB_HTRIE_SLOT2BIT c (TDB_HTRIE_COLL_MAX c))\<rparr>;
                    b_link = word_of_nat (TDB_O2DI bckt) OR TDB_HTRIE_DBIT;
                    i = TDB_HTRIE_IDX key bits
                in case atomic_cmpxchg dbh3 (node + 4 * i) 0 b_link of
                     (found, dbh4) \<Rightarrow>
                       if found = 0 then Inr (0, dbh4, rec1)
                       else Inr (- EAGAIN, tdb_htrie_rollback_bucket c dbh4, rec1))))"

text \<open>\<^verbatim>\<open>sync_test_and_set_bit\<close> that finds the bit set makes the loop read the same map
  again: with one thread it spins.\<close>

definition htrie_bckt_acquire_empty_slot :: "htrie_cfg \<Rightarrow> tdb \<Rightarrow> nat \<Rightarrow> fault + (int \<times> tdb)" where
  "htrie_bckt_acquire_empty_slot c dbh b =
     (let b_free = flz c (col_map dbh b)
      in if tdb_htrie_bckt_burst_threshold c b_free then Inr (- 1, dbh)
         else if bit (col_map dbh b) b_free then Inl SPIN
         else Inr (htrie_bckt_bit2slot c b_free,
                   dbh\<lparr>col_map := (col_map dbh)(b := set_bit b_free (col_map dbh b))\<rparr>))"

fun htrie_bckt_insert_new_rec ::
  "nat \<Rightarrow> htrie_cfg \<Rightarrow> tdb \<Rightarrow> nat \<Rightarrow> 64 word \<Rightarrow> 8 word list option \<Rightarrow> nat \<Rightarrow> int \<Rightarrow> recptr option
     \<Rightarrow> fault + (int \<times> tdb \<times> recptr option)" where
  "htrie_bckt_insert_new_rec 0 c dbh b key data len slot rec = Inl FUEL"
| "htrie_bckt_insert_new_rec (Suc fuel) c dbh b key data len slot rec =
     (case htrie_bckt_write_metadata c dbh b key data len slot rec of
        Inl e \<Rightarrow> Inl e
      | Inr (dbh1, rec1) \<Rightarrow>
          (case htrie_bckt_acquire_empty_slot c dbh1 b of
             Inl e \<Rightarrow> Inl e
           | Inr (s, dbh2) \<Rightarrow>
               if s < 0 then Inr (- EINVAL, dbh2, rec1)
               else if slot = s then
                 (case htrie_bckt_write_metadata c dbh2 b key data len slot rec1 of
                    Inl e \<Rightarrow> Inl e
                  | Inr (dbh3, rec2) \<Rightarrow> Inr (0, dbh3, rec2))
               else htrie_bckt_insert_new_rec fuel c dbh2 b key data len s rec1))"

subsection \<open>Bursting a bucket\<close>

text \<open>The loop of \<^verbatim>\<open>__htrie_bckt_move_records\<close> over the slots that are left. The result
  is the return code, the region and \<^verbatim>\<open>*new_map\<close>.\<close>

fun htrie_bckt_move_records ::
  "htrie_cfg \<Rightarrow> tdb \<Rightarrow> nat \<Rightarrow> 64 word \<Rightarrow> nat \<Rightarrow> nat \<Rightarrow> 64 word \<Rightarrow> bool \<Rightarrow> nat list
     \<Rightarrow> fault + (int \<times> tdb \<times> 64 word)" where
  "htrie_bckt_move_records c dbh b map' bits in' new_map no_mem_fail [] = Inr (0, dbh, new_map)"
| "htrie_bckt_move_records c dbh b map' bits in' new_map no_mem_fail (s # ss) =
     (let bit' = htrie_bckt_slot2bit c (int s)
      in if map' AND bit' = 0 then
           htrie_bckt_move_records c dbh b map' bits in' new_map no_mem_fail ss
         else
           (let r = SlotPtr b (int s);
                i = TDB_HTRIE_IDX (r_key (rmem dbh r)) bits
            in if shifts dbh in' i = 0 then
                 (if new_map = 0 then
                    htrie_bckt_move_records c
                      (set_shifts dbh in' i (word_of_nat (TDB_O2DI b) OR TDB_HTRIE_DBIT))
                      b map' bits in' (new_map OR bit') no_mem_fail ss
                  else
                    (case tdb_htrie_alloc_bucket c dbh of
                       (Some b_new, dbh1) \<Rightarrow>
                         (case htrie_bckt_copy_metadata c dbh1 b_new r of
                            Inl e \<Rightarrow> Inl e
                          | Inr dbh2 \<Rightarrow>
                              htrie_bckt_move_records c
                                (set_shifts dbh2 in' i (word_of_nat (TDB_O2DI b_new) OR TDB_HTRIE_DBIT))
                                b map' bits in' new_map no_mem_fail ss)
                     | (None, dbh1) \<Rightarrow>
                         if \<not> no_mem_fail then Inr (- ENOMEM, dbh1, new_map)
                         else
                           htrie_bckt_move_records c
                             (set_shifts
                                (dbh1\<lparr>g_burst_collision_no_mem := g_burst_collision_no_mem dbh1 + 1\<rparr>)
                                in' i (word_of_nat (TDB_O2DI b) OR TDB_HTRIE_DBIT))
                             b map' bits in' new_map no_mem_fail ss))
               else
                 (let o' = shifts dbh in' i AND NOT TDB_HTRIE_DBIT;
                      b_new = TDB_II2O (unat o')
                  in if b_new \<noteq> b then
                       (case htrie_bckt_copy_metadata c dbh b_new r of
                          Inl e \<Rightarrow> Inl e
                        | Inr dbh1 \<Rightarrow>
                            htrie_bckt_move_records c dbh1 b map' bits in' new_map no_mem_fail ss)
                     else
                       htrie_bckt_move_records c dbh b map' bits in' (new_map OR bit')
                         no_mem_fail ss)))"

text \<open>The loop that replaces \<^verbatim>\<open>b->col_map\<close> in \<^verbatim>\<open>tdb_htrie_bckt_burst\<close>. The result is
  the region, \<open>map\<close> and \<open>new_map\<close>.\<close>

fun burst_replace_map ::
  "nat \<Rightarrow> htrie_cfg \<Rightarrow> tdb \<Rightarrow> nat \<Rightarrow> nat \<Rightarrow> nat \<Rightarrow> 64 word \<Rightarrow> 64 word
     \<Rightarrow> fault + (tdb \<times> 64 word \<times> 64 word)" where
  "burst_replace_map 0 c dbh b bits in' map' new_map = Inl FUEL"
| "burst_replace_map (Suc fuel) c dbh b bits in' map' new_map =
     (let curr_map = col_map dbh b
      in if curr_map = map' then
           Inr (dbh\<lparr>col_map := (col_map dbh)(b := new_map)\<rparr>, map', new_map)
         else
           (case htrie_bckt_move_records c dbh b (curr_map XOR map') bits in' new_map True
                   [0 ..< TDB_HTRIE_BCKT_SLOTS_N c] of
              Inl e \<Rightarrow> Inl e
            | Inr (r, dbh1, new_map1) \<Rightarrow>
                burst_replace_map fuel c dbh1 b bits in' curr_map new_map1))"

text \<open>The loop under the label \<^verbatim>\<open>err_free_mem\<close>.\<close>

fun burst_free_mem :: "tdb \<Rightarrow> nat \<Rightarrow> nat list \<Rightarrow> fault + tdb" where
  "burst_free_mem dbh in' [] = Inr dbh"
| "burst_free_mem dbh in' (i # is) =
     (if shifts dbh in' i \<noteq> 0 then
        (case tdb_htrie_reclaim_bucket dbh
                (TDB_II2O (unat (shifts dbh in' i AND NOT TDB_HTRIE_DBIT))) of
           Inl e \<Rightarrow> Inl e
         | Inr dbh1 \<Rightarrow> burst_free_mem dbh1 in' is)
      else burst_free_mem dbh in' is)"

definition burst_err_free_mem :: "tdb \<Rightarrow> nat \<Rightarrow> int \<Rightarrow> nat \<Rightarrow> fault + (int \<times> tdb \<times> nat)" where
  "burst_err_free_mem dbh in' ret node =
     (case burst_free_mem dbh in' [0 ..< TDB_HTRIE_FANOUT] of
        Inl e \<Rightarrow> Inl e
      | Inr dbh1 \<Rightarrow> Inr (ret, tdb_htrie_rollback_index dbh1, node))"

text \<open>The result is the return code, the region and \<^verbatim>\<open>*node\<close>.\<close>

definition tdb_htrie_bckt_burst ::
  "nat \<Rightarrow> htrie_cfg \<Rightarrow> tdb \<Rightarrow> nat \<Rightarrow> nat \<Rightarrow> 64 word \<Rightarrow> nat \<Rightarrow> nat \<Rightarrow> fault + (int \<times> tdb \<times> nat)" where
  "tdb_htrie_bckt_burst fuel c dbh b old_off key bits node =
     (let map' = col_map dbh b in
      case tdb_htrie_alloc_index dbh of
        Inl e \<Rightarrow> Inl e
      | Inr (o', dbh1) \<Rightarrow>
          if o' = 0 then Inr (- ENOMEM, dbh1, node)
          else
            (let in' = TDB_II2O o' in
             case htrie_bckt_move_records c dbh1 b map' bits in' 0 False
                    [0 ..< TDB_HTRIE_BCKT_SLOTS_N c] of
               Inl e \<Rightarrow> Inl e
             | Inr (r, dbh2, new_map) \<Rightarrow>
                 if r \<noteq> 0 then burst_err_free_mem dbh2 in' (- ENOMEM) node
                 else
                   (let i = TDB_HTRIE_IDX key (bits - TDB_HTRIE_BITS) in
                    case atomic_cmpxchg dbh2 (node + 4 * i) (word_of_nat old_off) (word_of_nat o') of
                      (found, dbh3) \<Rightarrow>
                        if \<not> int_eq_ulong found old_off then
                          burst_err_free_mem dbh3 in' (- EAGAIN) node
                        else
                          (case burst_replace_map fuel c dbh3 b bits in' map' new_map of
                             Inl e \<Rightarrow> Inl e
                           | Inr (dbh4, map1, new_map1) \<Rightarrow>
                               if new_map1 = map1 then Inr (- 1, dbh4, in')
                               else Inr (0, dbh4, in')))))"

subsection \<open>Insert\<close>

text \<open>Where the loop around \<^verbatim>\<open>tdb_htrie_bckt_burst\<close> in \<^verbatim>\<open>tdb_htrie_insert\<close> leaves to:
  the label \<^verbatim>\<open>err_data_free\<close> (after \<^verbatim>\<open>break\<close>, on \<^verbatim>\<open>-ENOMEM\<close> and through
  \<^verbatim>\<open>no_space\<close>), or the label \<^verbatim>\<open>retry\<close> with the current \<open>bits\<close>.\<close>

datatype burst_exit = To_err_data_free | To_retry nat

fun insert_burst_loop ::
  "nat \<Rightarrow> nat \<Rightarrow> htrie_cfg \<Rightarrow> tdb \<Rightarrow> nat \<Rightarrow> nat \<Rightarrow> 64 word \<Rightarrow> nat \<Rightarrow> nat
     \<Rightarrow> fault + (burst_exit \<times> tdb)" where
  "insert_burst_loop 0 fuel c dbh bckt o' key bits node = Inl FUEL"
| "insert_burst_loop (Suc n) fuel c dbh bckt o' key bits node =
     (case tdb_htrie_bckt_burst fuel c dbh bckt o' key bits node of
        Inl e \<Rightarrow> Inl e
      | Inr (r, dbh1, node1) \<Rightarrow>
          if r = 0 then Inr (To_err_data_free, dbh1)
          else if r = - ENOMEM then Inr (To_err_data_free, dbh1)
          else if r = - EAGAIN then Inr (To_retry bits, dbh1)
          else if TDB_HTRIE_RESOLVED (bits + TDB_HTRIE_BITS) then Inr (To_err_data_free, dbh1)
          else insert_burst_loop n fuel c dbh1 bckt o' key (bits + TDB_HTRIE_BITS) node1)"

text \<open>The labels \<^verbatim>\<open>err_data_free\<close> and \<^verbatim>\<open>err\<close>. The result of an insert is the returned
  record (\<open>None\<close> is \<^verbatim>\<open>NULL\<close>), \<^verbatim>\<open>*len\<close> and the region.\<close>

definition insert_err :: "tdb \<Rightarrow> nat \<Rightarrow> fault + (recptr option \<times> nat \<times> tdb)" where
  "insert_err dbh len = Inr (None, len, tdb_htrie_free_generation dbh)"

definition insert_err_data_free ::
  "htrie_cfg \<Rightarrow> tdb \<Rightarrow> nat \<Rightarrow> fault + (recptr option \<times> nat \<times> tdb)" where
  "insert_err_data_free c dbh len =
     insert_err (if \<not> inplace c dbh then tdb_htrie_rollback_data c dbh len else dbh) len"

text \<open>\<^verbatim>\<open>tdb_htrie_insert\<close> from the label \<^verbatim>\<open>retry\<close>.\<close>

fun insert_retry ::
  "nat \<Rightarrow> nat \<Rightarrow> htrie_cfg \<Rightarrow> tdb \<Rightarrow> 64 word \<Rightarrow> 8 word list option \<Rightarrow> nat \<Rightarrow> recptr option \<Rightarrow> nat
     \<Rightarrow> fault + (recptr option \<times> nat \<times> tdb)" where
  "insert_retry 0 fuel c dbh key data len rec bits = Inl FUEL"
| "insert_retry (Suc n) fuel c dbh key data len rec bits =
     (case tdb_htrie_descend c dbh key bits of
        Inl e \<Rightarrow> Inl e
      | Inr (o', bits1, node) \<Rightarrow>
          if o' = 0 then
            (case htrie_insert_new_bckt c dbh key bits1 node data len rec of
               Inl e \<Rightarrow> Inl e
             | Inr (r, dbh1, rec1) \<Rightarrow>
                 if r = 0 then insert_err dbh1 len
                 else if r = - ENOMEM then insert_err_data_free c dbh1 len
                 else insert_retry n fuel c dbh1 key data len rec1 bits1)
          else
            (let bckt = o';
                 b_free = flz c (col_map dbh bckt)
             in case (if \<not> tdb_htrie_bckt_burst_threshold c b_free then
                        htrie_bckt_insert_new_rec fuel c dbh bckt key data len
                          (htrie_bckt_bit2slot c b_free) rec
                      else Inr (- 1, dbh, rec)) of
                  Inl e \<Rightarrow> Inl e
                | Inr (r, dbh1, rec1) \<Rightarrow>
                    if \<not> tdb_htrie_bckt_burst_threshold c b_free \<and> r = 0 then
                      Inr (rec1, len, tdb_htrie_free_generation dbh1)
                    else if TDB_HTRIE_RESOLVED bits1 then insert_err_data_free c dbh1 len
                    else if bits1 < TDB_HTRIE_BITS then Inl BUG
                    else
                      (case insert_burst_loop fuel fuel c dbh1 bckt o' key bits1 node of
                         Inl e \<Rightarrow> Inl e
                       | Inr (To_err_data_free, dbh2) \<Rightarrow> insert_err_data_free c dbh2 len
                       | Inr (To_retry bits2, dbh2) \<Rightarrow>
                           insert_retry n fuel c dbh2 key data len rec1 bits2)))"

text \<open>\<open>fuel\<close> bounds each loop of the insert that the source does not bound.\<close>

definition tdb_htrie_insert ::
  "nat \<Rightarrow> htrie_cfg \<Rightarrow> tdb \<Rightarrow> 64 word \<Rightarrow> 8 word list option \<Rightarrow> nat
     \<Rightarrow> fault + (recptr option \<times> nat \<times> tdb)" where
  "tdb_htrie_insert fuel c dbh key data len =
     (if len = 0 then Inr (None, len, dbh)
      else
        (let dbh1 = tdb_htrie_observe_generation dbh
         in if \<not> inplace c dbh1 then
              (case tdb_htrie_alloc_data c dbh1 len of
                 (o', len1, dbh2) \<Rightarrow>
                   if o' = 0 then insert_err dbh2 len1
                   else
                     (case tdb_htrie_create_rec c dbh2 (DataPtr o') key data len1 of
                        Inl e \<Rightarrow> Inl e
                      | Inr dbh3 \<Rightarrow>
                          insert_retry fuel fuel c dbh3 key data len1 (Some (DataPtr o')) 0))
            else insert_retry fuel fuel c dbh1 key data len None 0))"

subsection \<open>Lookup and iteration\<close>

text \<open>The result is the bucket handle (\<open>None\<close> is \<^verbatim>\<open>NULL\<close>) and the region.\<close>

definition tdb_htrie_lookup :: "htrie_cfg \<Rightarrow> tdb \<Rightarrow> 64 word \<Rightarrow> fault + (nat option \<times> tdb)" where
  "tdb_htrie_lookup c dbh key =
     (let dbh1 = tdb_htrie_observe_generation dbh
      in case tdb_htrie_descend c dbh1 key 0 of
           Inl e \<Rightarrow> Inl e
         | Inr (o', bits, node) \<Rightarrow>
             if o' = 0 then Inr (None, tdb_htrie_free_generation dbh1)
             else Inr (Some o', dbh1))"

text \<open>The loop of \<^verbatim>\<open>tdb_htrie_bscan_for_rec\<close> over the slots from \<^verbatim>\<open>*i\<close> on. The result
  is the record found and \<^verbatim>\<open>*i\<close>.\<close>

fun bscan_from :: "htrie_cfg \<Rightarrow> tdb \<Rightarrow> nat \<Rightarrow> 64 word \<Rightarrow> nat \<Rightarrow> nat list \<Rightarrow> recptr option \<times> nat" where
  "bscan_from c dbh b key n [] = (None, n)"
| "bscan_from c dbh b key n (i # is) =
     (if col_map dbh b AND htrie_bckt_slot2bit c (int i) = 0 then bscan_from c dbh b key n is
      else if r_key (rmem dbh (SlotPtr b (int i))) = key then
        (if inplace c dbh then (Some (SlotPtr b (int i)), i)
         else (Some (DataPtr (r_off (rmem dbh (SlotPtr b (int i))))), i))
      else bscan_from c dbh b key n is)"

definition tdb_htrie_bscan_for_rec ::
  "htrie_cfg \<Rightarrow> tdb \<Rightarrow> nat \<Rightarrow> 64 word \<Rightarrow> nat \<Rightarrow> recptr option \<times> nat" where
  "tdb_htrie_bscan_for_rec c dbh b key i =
     bscan_from c dbh b key (max i (TDB_HTRIE_BCKT_SLOTS_N c)) [i ..< TDB_HTRIE_BCKT_SLOTS_N c]"

text \<open>The walk calls \<open>fn\<close> on the body of a record: \<^verbatim>\<open>r->data\<close> of the slot when the
  records are in place, \<^verbatim>\<open>vr->data\<close> of the record at \<^verbatim>\<open>r->off\<close> otherwise. The body is
  named by the pointer to its record. The result is the return code and the bodies that
  \<open>fn\<close> was called on, in the order of the calls.\<close>

fun tdb_htrie_bucket_walk ::
  "htrie_cfg \<Rightarrow> tdb \<Rightarrow> nat \<Rightarrow> (recptr \<Rightarrow> int) \<Rightarrow> nat list \<Rightarrow> int \<times> recptr list" where
  "tdb_htrie_bucket_walk c dbh b fn [] = (0, [])"
| "tdb_htrie_bucket_walk c dbh b fn (i # is) =
     (if col_map dbh b AND htrie_bckt_slot2bit c (int i) = 0 then
        tdb_htrie_bucket_walk c dbh b fn is
      else
        (let r = SlotPtr b (int i);
             p = (if inplace c dbh then r else DataPtr (r_off (rmem dbh r)))
         in if fn p \<noteq> 0 then (fn p, [p])
            else (case tdb_htrie_bucket_walk c dbh b fn is of (res, tr) \<Rightarrow> (res, p # tr))))"

text \<open>The loop of \<^verbatim>\<open>tdb_htrie_node_visit\<close> over the slots of \<open>node\<close> that are left;
  \<open>depth\<close> bounds the recursion, which the source does not bound.\<close>

definition node_fanout :: "htrie_cfg \<Rightarrow> tdb \<Rightarrow> nat \<Rightarrow> nat" where
  "node_fanout c dbh node =
     (if node = tdb_htrie_root c dbh then 2 ^ root_bits dbh else TDB_HTRIE_FANOUT)"

fun node_visit_from ::
  "nat \<Rightarrow> htrie_cfg \<Rightarrow> tdb \<Rightarrow> nat \<Rightarrow> (recptr \<Rightarrow> int) \<Rightarrow> nat list \<Rightarrow> fault + (int \<times> recptr list)" where
  "node_visit_from depth c dbh node fn [] = Inr (0, [])"
| "node_visit_from depth c dbh node fn (bits # rest) =
     (if TDB_HTRIE_RESOLVED bits then Inl BUG
      else
        (let o' = shifts dbh node bits
         in if o' = 0 then node_visit_from depth c dbh node fn rest
            else if TDB_DI2O (unat (o' AND NOT TDB_HTRIE_DBIT)) < tdb_hdr_sz c dbh + sizeof_TdbExt c
                    \<or> TDB_DI2O (unat (o' AND NOT TDB_HTRIE_DBIT)) > tdb_dbsz c dbh
            then Inl BUG
            else if o' AND TDB_HTRIE_DBIT \<noteq> 0 then
              (if o' XOR TDB_HTRIE_DBIT = 0 then Inl BUG
               else
                 (case tdb_htrie_bucket_walk c dbh (TDB_DI2O (unat (o' XOR TDB_HTRIE_DBIT))) fn
                         [0 ..< TDB_HTRIE_BCKT_SLOTS_N c] of
                    (res, tr) \<Rightarrow>
                      if res \<noteq> 0 then Inr (res, tr)
                      else
                        (case node_visit_from depth c dbh node fn rest of
                           Inl e \<Rightarrow> Inl e
                         | Inr (res1, tr1) \<Rightarrow> Inr (res1, tr @ tr1))))
            else
              (case depth of
                 0 \<Rightarrow> Inl FUEL
               | Suc d \<Rightarrow>
                   (case node_visit_from d c dbh (TDB_II2O (unat o')) fn
                           [0 ..< node_fanout c dbh (TDB_II2O (unat o'))] of
                      Inl e \<Rightarrow> Inl e
                    | Inr (res, tr) \<Rightarrow>
                        if res \<noteq> 0 then Inr (res, tr)
                        else
                          (case node_visit_from depth c dbh node fn rest of
                             Inl e \<Rightarrow> Inl e
                           | Inr (res1, tr1) \<Rightarrow> Inr (res1, tr @ tr1))))))"

definition tdb_htrie_node_visit ::
  "nat \<Rightarrow> htrie_cfg \<Rightarrow> tdb \<Rightarrow> nat \<Rightarrow> (recptr \<Rightarrow> int) \<Rightarrow> fault + (int \<times> recptr list)" where
  "tdb_htrie_node_visit depth c dbh node fn =
     node_visit_from depth c dbh node fn [0 ..< node_fanout c dbh node]"

definition tdb_htrie_walk ::
  "nat \<Rightarrow> htrie_cfg \<Rightarrow> tdb \<Rightarrow> (recptr \<Rightarrow> int) \<Rightarrow> fault + (int \<times> recptr list)" where
  "tdb_htrie_walk depth c dbh fn = tdb_htrie_node_visit depth c dbh (tdb_htrie_root c dbh) fn"

subsection \<open>Remove\<close>

text \<open>The loop of \<^verbatim>\<open>tdb_htrie_remove\<close> over the slots of \<open>b\<close> that are left. The result is
  the region and \<^verbatim>\<open>data_reclaim[0..dr)\<close>.\<close>

fun remove_unlink ::
  "htrie_cfg \<Rightarrow> tdb \<Rightarrow> nat \<Rightarrow> nat \<Rightarrow> 64 word \<Rightarrow> recptr list \<Rightarrow> nat list
     \<Rightarrow> fault + (tdb \<times> recptr list)" where
  "remove_unlink c dbh b b_new key data_reclaim [] = Inr (dbh, data_reclaim)"
| "remove_unlink c dbh b b_new key data_reclaim (i # is) =
     (if col_map dbh b AND htrie_bckt_slot2bit c (int i) = 0 then
        remove_unlink c dbh b b_new key data_reclaim is
      else
        (let r = SlotPtr b (int i)
         in if r_key (rmem dbh r) \<noteq> key then
              (case htrie_bckt_copy_metadata c dbh b_new r of
                 Inl e \<Rightarrow> Inl e
               | Inr dbh1 \<Rightarrow> remove_unlink c dbh1 b b_new key data_reclaim is)
            else remove_unlink c dbh b b_new key (data_reclaim @ [r]) is))"

text \<open>The loop over the chunks of a variable-length record; \<open>fuel\<close> bounds the chain.\<close>

fun remove_free_chunks :: "nat \<Rightarrow> htrie_cfg \<Rightarrow> tdb \<Rightarrow> nat \<Rightarrow> fault + tdb" where
  "remove_free_chunks 0 c dbh vr = Inl FUEL"
| "remove_free_chunks (Suc fuel) c dbh vr =
     (let o' = vr_chunk_next (rmem dbh (DataPtr vr))
      in case tdb_htrie_free_data c dbh vr (vr_len (rmem dbh (DataPtr vr))) of
           Inl e \<Rightarrow> Inl e
         | Inr dbh1 \<Rightarrow> if o' = 0 then Inr dbh1 else remove_free_chunks fuel c dbh1 (unat o'))"

fun remove_reclaim_data :: "nat \<Rightarrow> htrie_cfg \<Rightarrow> tdb \<Rightarrow> recptr list \<Rightarrow> fault + tdb" where
  "remove_reclaim_data fuel c dbh [] = Inr dbh"
| "remove_reclaim_data fuel c dbh (r # rs) =
     (case (if TDB_HTRIE_VARLENRECS dbh then remove_free_chunks fuel c dbh (r_off (rmem dbh r))
            else tdb_htrie_free_data c dbh (r_off (rmem dbh r)) (rec_len dbh)) of
        Inl e \<Rightarrow> Inl e
      | Inr dbh1 \<Rightarrow> remove_reclaim_data fuel c dbh1 rs)"

text \<open>\<^verbatim>\<open>tdb_htrie_remove\<close> from the label \<^verbatim>\<open>retry\<close>.\<close>

fun remove_retry ::
  "nat \<Rightarrow> nat \<Rightarrow> htrie_cfg \<Rightarrow> tdb \<Rightarrow> 64 word \<Rightarrow> nat \<Rightarrow> nat \<Rightarrow> nat \<Rightarrow> fault + tdb" where
  "remove_retry 0 fuel c dbh key b_new new_off bits = Inl FUEL"
| "remove_retry (Suc n) fuel c dbh key b_new new_off bits =
     (case tdb_htrie_descend c dbh key bits of
        Inl e \<Rightarrow> Inl e
      | Inr (o', bits1, node) \<Rightarrow>
          if o' = 0 then tdb_htrie_reclaim_bucket dbh b_new
          else
            (case remove_unlink c dbh o' b_new key [] [0 ..< TDB_HTRIE_BCKT_SLOTS_N c] of
               Inl e \<Rightarrow> Inl e
             | Inr (dbh1, data_reclaim) \<Rightarrow>
                 (let i = TDB_HTRIE_IDX key (bits1 - TDB_HTRIE_BITS) in
                  case atomic_cmpxchg dbh1 (node + 4 * i) (word_of_nat o') (word_of_nat new_off) of
                    (found, dbh2) \<Rightarrow>
                      if \<not> int_eq_ulong found o' then
                        remove_retry n fuel c (tdb_htrie_init_bucket dbh2 b_new) key b_new new_off bits1
                      else
                        (case tdb_htrie_synchronize_generation dbh2 of
                           Inl e \<Rightarrow> Inl e
                         | Inr dbh3 \<Rightarrow>
                             (case tdb_htrie_reclaim_bucket dbh3 o' of
                                Inl e \<Rightarrow> Inl e
                              | Inr dbh4 \<Rightarrow>
                                  if inplace c dbh4 then Inr dbh4
                                  else remove_reclaim_data fuel c dbh4 data_reclaim)))))"

definition tdb_htrie_remove :: "nat \<Rightarrow> htrie_cfg \<Rightarrow> tdb \<Rightarrow> 64 word \<Rightarrow> fault + tdb" where
  "tdb_htrie_remove fuel c dbh key =
     (case tdb_htrie_alloc_bucket c dbh of
        (None, dbh1) \<Rightarrow> Inr dbh1
      | (Some b_new, dbh1) \<Rightarrow> remove_retry fuel fuel c dbh1 key b_new b_new 0)"

subsection \<open>Initialisation\<close>

text \<open>What the environment answers during \<^verbatim>\<open>tdb_init_mapping\<close>: whether
  \<^verbatim>\<open>alloc_percpu\<close> succeeds, the three blocks that \<^verbatim>\<open>tdb_alloc_blk\<close> returns, and the
  \<^verbatim>\<open>ext_max\<close> that \<^verbatim>\<open>tdb_alloc_init\<close> sets.\<close>

record init_env =
  percpu_ok :: bool
  i_wcl :: nat
  b_wcl :: nat
  d_wcl :: nat
  ext_max_init :: nat

text \<open>\<^verbatim>\<open>memset(tdb_htrie_root(dbh), 0, tdb_htrie_root_sz(dbh))\<close>.\<close>

definition memset_root :: "htrie_cfg \<Rightarrow> tdb \<Rightarrow> tdb" where
  "memset_root c dbh =
     dbh\<lparr>imem := (\<lambda>a. if tdb_htrie_root c dbh \<le> a \<and> a < tdb_htrie_root c dbh + tdb_htrie_root_sz dbh
                       then 0 else imem dbh a)\<rparr>"

text \<open>The result is the returned header, \<open>None\<close> for \<^verbatim>\<open>NULL\<close>. \<^verbatim>\<open>root_bits\<close> is a
  \<^verbatim>\<open>size_t\<close>, and \<^verbatim>\<open>~TDB_HTRIE_BITS\<close> is the complement of 4.\<close>

definition tdb_init_mapping ::
  "htrie_cfg \<Rightarrow> init_env \<Rightarrow> tdb \<Rightarrow> nat \<Rightarrow> 64 word \<Rightarrow> nat \<Rightarrow> 32 word \<Rightarrow> fault + tdb option" where
  "tdb_init_mapping c env p db_size root_bits' rec_len' flags' =
     (if db_size > TDB_MAX_SHARD_SZ c then Inr None
      else if rec_len' > TDB_BLK_SZ c div 2 then Inr None
      else if root_bits' AND NOT (word_of_nat TDB_HTRIE_BITS) \<noteq> 0 then Inr None
      else if root_bits' < word_of_nat TDB_HTRIE_BITS then Inr None
      else
        (let dbh = p\<lparr>magic := TDB_MAGIC, flags := flags', rec_len := rec_len',
                     root_bits := unat root_bits', generation := 0\<rparr>;
             dbh1 = memset_root c dbh;
             dbh2 = dbh1\<lparr>ext_max := ext_max_init env\<rparr>;
             dbh3 = dbh2\<lparr>dcache := (dcache dbh2)(0 := [])\<rparr>;
             dbh4 = (if TDB_HTRIE_VARLENRECS dbh3
                     then dbh3\<lparr>dcache := (dcache dbh3)(1 := [], 2 := [], 3 := [])\<rparr>
                     else dbh3)
         in if flags' AND TDB_F_INPLACE c \<noteq> 0 \<and> rec_len' = 0 then Inr None
            else if flags' AND TDB_F_INPLACE c \<noteq> 0 \<and> tdb_htrie_bckt_sz c dbh4 > TDB_BLK_SZ c
            then Inr None
            else if \<not> percpu_ok env then Inr None
            else if i_wcl env = 0 then Inl BUG
            else if b_wcl env = 0 then Inl BUG
            else if d_wcl env = 0 then Inl BUG
            else Inr (Some (dbh4\<lparr>pcpu_generation := LONG_MAX,
                                  free_bckt_h := 0, free_bckt_t := 0\<rparr>))))"

definition tdb_htrie_init ::
  "htrie_cfg \<Rightarrow> init_env \<Rightarrow> tdb \<Rightarrow> nat \<Rightarrow> 64 word \<Rightarrow> nat \<Rightarrow> 32 word \<Rightarrow> fault + tdb option" where
  "tdb_htrie_init c env p db_size root_bits' rec_len' flags' =
     (if magic p \<noteq> TDB_MAGIC then tdb_init_mapping c env p db_size root_bits' rec_len' flags'
      else Inr (Some p))"

subsection \<open>A concrete database\<close>

text \<open>
  The parameters used where a property is shown on a concrete run. \<open>flz\<close> is read as the
  comment of \<^verbatim>\<open>tdb_htrie_init_bucket\<close> has it (the \<^verbatim>\<open>bsr\<close> instruction on the complement):
  the index of the most significant zero bit. The maximal \<^verbatim>\<open>TDB_HTRIE_COLL_MAX\<close> that
  \<^verbatim>\<open>BUILD_BUG_ON\<close> allows is taken, the slots are as many as \<^verbatim>\<open>tdb_htrie_bckt_sz\<close>
  allocates, \<^verbatim>\<open>TDB_HTRIE_SLOT2BIT\<close> is the mask of a bit, and \<^verbatim>\<open>TDB_I2O\<close> inverts the
  \<^verbatim>\<open>TDB_O2DI\<close> under which buckets are linked.
\<close>

fun flz_from :: "nat \<Rightarrow> 64 word \<Rightarrow> nat" where
  "flz_from 0 w = 0"
| "flz_from (Suc n) w = (if \<not> bit w n then n else flz_from n w)"

definition cfg0 :: htrie_cfg where
  "cfg0 = \<lparr>TDB_HTRIE_COLL_MAX = 63, TDB_HTRIE_BURST_MIN_BITS = 2, TDB_HTRIE_BCKT_SLOTS_N = 61,
     TDB_HTRIE_SLOT2BIT = (\<lambda>s. push_bit s 1), flz = flz_from 64, TDB_I2O = TDB_DI2O,
     TDB_F_INPLACE = 1, TDB_BLK_SZ = 4096, TDB_MAX_SHARD_SZ = 2 ^ 37, TDB_EXT_SZ = 2 ^ 21,
     sizeof_TdbHdr = 128, sizeof_LfStack = 16, sizeof_TdbExt = 64, sizeof_TdbHtrieBucket = 16,
     sizeof_TdbFRec = 16, sizeof_TdbVRec = 8\<rparr>"

definition zero_cell :: cell where
  "zero_cell = \<lparr>r_key = 0, r_off = 0, vr_chunk_next = 0, vr_len = 0, r_data = []\<rparr>"

text \<open>A fresh mapping: zeroes, and an allocator with nothing queued.\<close>

definition zero_region :: tdb where
  "zero_region = \<lparr>magic = 0, flags = 0, rec_len = 0, root_bits = 0, generation = 0, ext_max = 0,
     dcache = (\<lambda>_. []), pcpu_generation = 0, free_bckt_h = 0, free_bckt_t = 0,
     imem = (\<lambda>_. 0), col_map = (\<lambda>_. 0), bnext = (\<lambda>_. 0), rmem = (\<lambda>_. zero_cell),
     fix_q = [], data_q = [], alloc_log = [], g_burst_collision_no_mem = 0\<rparr>"

definition env0 :: init_env where
  "env0 = \<lparr>percpu_ok = True, i_wcl = 4096, b_wcl = 8192, d_wcl = 12288, ext_max_init = 16\<rparr>"

text \<open>The database of variable-length records that \<^verbatim>\<open>tdb_htrie_init\<close> makes of the fresh
  mapping, and the one of 8-byte records in place.\<close>

definition db0 :: tdb where
  "db0 = (case tdb_htrie_init cfg0 env0 zero_region (2 ^ 25) 4 0 0 of
            Inr (Some d) \<Rightarrow> d | _ \<Rightarrow> zero_region)"

definition db0_inplace :: tdb where
  "db0_inplace = (case tdb_htrie_init cfg0 env0 zero_region (2 ^ 25) 4 8 1 of
                    Inr (Some d) \<Rightarrow> d | _ \<Rightarrow> zero_region)"

text \<open>\<open>db0\<close> with an allocator that will grant the bucket at 16384 and three bytes of data
  at 32768, and the database after the key 0x15 was inserted with the data 1, 2, 3.\<close>

definition dbA :: tdb where
  "dbA = db0\<lparr>fix_q := [16384], data_q := [(32768, 3)]\<rparr>"

definition db1 :: tdb where
  "db1 = (case tdb_htrie_insert 1 cfg0 dbA 0x15 (Some [1, 2, 3]) 3 of
            Inr (r, l, d) \<Rightarrow> d | Inl e \<Rightarrow> zero_region)"

text \<open>A full bucket at 16384 under the root slot 5: the bits 63 down to 2 of its map are
  set, slot 0 holds the key 0x15 and the slots 1 to 61 hold the key 0x25. The allocator will
  grant an index node at 4096 and a bucket at 20480.\<close>

definition full_slots :: "recptr \<Rightarrow> cell" where
  "full_slots p =
     (case p of
        SlotPtr b s \<Rightarrow>
          if b = 16384 \<and> 0 \<le> s \<and> s \<le> 61
          then \<lparr>r_key = (if s = 0 then 0x15 else 0x25), r_off = 32768 + 128 * nat s,
                 vr_chunk_next = 0, vr_len = 0, r_data = []\<rparr>
          else zero_cell
      | DataPtr o' \<Rightarrow> zero_cell)"

definition dbF :: tdb where
  "dbF = db0\<lparr>imem := (imem db0)(212 := 0x80000080),
              col_map := (col_map db0)(16384 := 0xFFFFFFFFFFFFFFFC),
              rmem := full_slots,
              fix_q := [4096, 20480]\<rparr>"

text \<open>The database of records in place with a full bucket under the root slot 0, and an
  allocator that refuses.\<close>

definition dbF_inplace :: tdb where
  "dbF_inplace = db0_inplace\<lparr>imem := (imem db0_inplace)(192 := 0x80000080),
                             col_map := (col_map db0_inplace)(16384 := 0xFFFFFFFFFFFFFFFC)\<rparr>"

text \<open>The number of bits that are set in a collision map.\<close>

definition popcount :: "64 word \<Rightarrow> nat" where
  "popcount w = length (filter (bit w) [0 ..< 64])"

subsection \<open>What a bucket holds, and runs of calls\<close>


text \<open>An offset at which the allocator may grant a bucket: not 0, which is its refusal, a
  multiple of \<^verbatim>\<open>TDB_HTRIE_MINDREC\<close> whose index fits the 31 bits of an index word, and
  within the bounds that \<^verbatim>\<open>tdb_htrie_descend\<close> asserts.\<close>

definition good_off :: "htrie_cfg \<Rightarrow> tdb \<Rightarrow> nat \<Rightarrow> bool" where
  "good_off c dbh b =
     (0 < b \<and> b mod TDB_HTRIE_MINDREC = 0 \<and> b < 2 ^ 38
      \<and> tdb_hdr_sz c dbh + sizeof_TdbExt c \<le> b \<and> b \<le> tdb_dbsz c dbh)"

text \<open>The buckets on the list \<^verbatim>\<open>free_bckt_h\<close>, from the head \<open>h\<close> along the \<^verbatim>\<open>next\<close>
  fields.\<close>

fun fl_path :: "(nat \<Rightarrow> nat) \<Rightarrow> nat \<Rightarrow> nat list \<Rightarrow> bool" where
  "fl_path nx h [] = (h = 0)"
| "fl_path nx h (x # xs) = (h = x \<and> x \<noteq> 0 \<and> fl_path nx (nx x) xs)"

text \<open>Modelled from the spec: \<^verbatim>\<open>TDB_I2O\<close>, with which \<^verbatim>\<open>tdb_htrie_descend\<close> converts what
  an index word holds to a byte offset, is used in htrie.c and declared nowhere in the
  sources. The spec has two bases of offsets, "index offsets are multiples of the cache-line
  size; data/bucket offsets are multiples of MINDREC (two cache lines)", and "conversion
  functions translate between raw byte offsets and each base". The word of a bucket is in the
  base of data and buckets, so its conversion multiplies by \<^verbatim>\<open>TDB_HTRIE_MINDREC\<close>.\<close>

definition TDB_I2O_spec :: "nat \<Rightarrow> nat" where
  "TDB_I2O_spec i = i * TDB_HTRIE_MINDREC"

text \<open>What is assumed of the macros and sizes that the sources use and do not declare:
  \<^verbatim>\<open>TDB_I2O\<close> is as the spec has it for the word of a bucket; the header is not empty;
  \<^verbatim>\<open>TDB_HTRIE_COLL_MAX\<close> is a bit of the collision map, as
  \<^verbatim>\<open>BUILD_BUG_ON(TDB_HTRIE_COLL_MAX > BITS_PER_LONG - 1)\<close> has it; and
  \<^verbatim>\<open>TDB_HTRIE_SLOT2BIT(TDB_HTRIE_COLL_MAX)\<close>, the map of a new bucket, has this bit, the one
  of slot 0.\<close>

definition cfg_ok :: "htrie_cfg \<Rightarrow> bool" where
  "cfg_ok c =
     (TDB_I2O c = TDB_I2O_spec \<and> 0 < sizeof_TdbHdr c
      \<and> TDB_HTRIE_COLL_MAX c < BITS_PER_LONG
      \<and> bit (TDB_HTRIE_SLOT2BIT c (TDB_HTRIE_COLL_MAX c)) (TDB_HTRIE_COLL_MAX c))"





text \<open>The header fields that the operations never change.\<close>

definition hdr_same :: "tdb \<Rightarrow> tdb \<Rightarrow> bool" where
  "hdr_same s s' =
     (flags s' = flags s \<and> rec_len s' = rec_len s \<and> root_bits s' = root_bits s
      \<and> ext_max s' = ext_max s)"






text \<open>\<^verbatim>\<open>tdb_htrie_insert\<close> gets past its two early exits: the length is not 0, and where
  the records are out of the buckets, the area for the data was granted.\<close>

definition insert_proceeds :: "htrie_cfg \<Rightarrow> tdb \<Rightarrow> nat \<Rightarrow> bool" where
  "insert_proceeds c dbh len =
     (len \<noteq> 0
      \<and> (inplace c dbh
         \<or> fst (tdb_htrie_alloc_data c (tdb_htrie_observe_generation dbh) len) \<noteq> 0))"







subsection \<open>Collision maps, and the slot that an insert writes\<close>

text \<open>The bits of a collision map below the burst threshold are clear.\<close>

definition low_clear :: "htrie_cfg \<Rightarrow> 64 word \<Rightarrow> bool" where
  "low_clear c m = list_all (\<lambda>n. \<not> bit m n) [0 ..< TDB_HTRIE_BURST_MIN_BITS c]"

text \<open>What the claim on collision maps asks of a map, with the bits below the burst
  threshold, which are the zero bits that are always there: the most significant bit is set,
  and at most \<^verbatim>\<open>TDB_HTRIE_COLL_MAX\<close> bits are set.\<close>

definition map_ok :: "htrie_cfg \<Rightarrow> 64 word \<Rightarrow> bool" where
  "map_ok c m =
     (bit m (BITS_PER_LONG - 1) \<and> low_clear c m \<and> popcount m \<le> TDB_HTRIE_COLL_MAX c)"

text \<open>What is assumed of the macros of the maps, which the sources do not declare:
  \<^verbatim>\<open>TDB_HTRIE_COLL_MAX\<close> is the most significant bit, the largest value that
  \<^verbatim>\<open>BUILD_BUG_ON(TDB_HTRIE_COLL_MAX > BITS_PER_LONG - 1)\<close> allows; the burst threshold is
  not 0 and not above it; \<^verbatim>\<open>TDB_HTRIE_SLOT2BIT\<close> of it is the mask of this bit.\<close>

definition map_cfg :: "htrie_cfg \<Rightarrow> bool" where
  "map_cfg c =
     (TDB_HTRIE_COLL_MAX c = BITS_PER_LONG - 1
      \<and> 0 < TDB_HTRIE_BURST_MIN_BITS c \<and> TDB_HTRIE_BURST_MIN_BITS c \<le> TDB_HTRIE_COLL_MAX c
      \<and> TDB_HTRIE_SLOT2BIT c (TDB_HTRIE_COLL_MAX c) = push_bit (TDB_HTRIE_COLL_MAX c) 1)"

text \<open>The allocator grants the bucket that \<^verbatim>\<open>tdb_htrie_alloc_bucket\<close> asks for next: what
  it returns is at an offset where a bucket may be, and not the header at the offset 0.\<close>

definition bucket_granted :: "htrie_cfg \<Rightarrow> tdb \<Rightarrow> bool" where
  "bucket_granted c dbh =
     (case fst (tdb_htrie_alloc_bucket c dbh) of Some b \<Rightarrow> good_off c dbh b | None \<Rightarrow> False)"

text \<open>The slot that an insert writes first: slot 0 of the bucket it is granted where the
  descent found none (\<open>o'\<close> is 0), the slot of the zero bit that \<open>flz\<close> finds in the bucket at
  \<open>o'\<close> otherwise.\<close>

definition first_slot :: "htrie_cfg \<Rightarrow> tdb \<Rightarrow> nat \<Rightarrow> recptr" where
  "first_slot c dbh o' =
     (if o' = 0 then SlotPtr (the (fst (tdb_htrie_alloc_bucket c dbh))) 0
      else SlotPtr o' (htrie_bckt_bit2slot c (flz c (col_map dbh o'))))"

section \<open>Properties\<close>

subsection \<open>Evaluation\<close>

lemmas consts_defs = L1_CACHE_BYTES_def TDB_HTRIE_NODE_SZ_def TDB_HTRIE_MINDREC_def TDB_O2DI_def
  TDB_DI2O_def TDB_II2O_def TDB_HTRIE_IALIGN_def TDB_HTRIE_BITS_def TDB_HTRIE_FANOUT_def
  TDB_HTRIE_KMASK_def BITS_PER_LONG_def TDB_HTRIE_RESOLVED_def TDB_HTRIE_DBIT_def TDB_HTRIE_IDX_def
  TDB_MAGIC_def ENOMEM_def EAGAIN_def EINVAL_def LONG_MAX_def sizeof_TdbHtrieNode_def

lemmas model_defs = tdb_htrie_insert_def tdb_htrie_observe_generation_def
  tdb_htrie_free_generation_def inplace_def tdb_htrie_alloc_data_def htrie_dcache_def
  TDB_HTRIE_VARLENRECS_def tdb_alloc_data_def tdb_htrie_create_rec_def memcpy_data_def
  tdb_htrie_descend_def tdb_htrie_root_def tdb_hdr_sz_def tdb_dbsz_def shifts_def set_shifts_def
  htrie_insert_new_bckt_def tdb_htrie_alloc_bucket_def tdb_alloc_fix_def tdb_htrie_init_bucket_def
  htrie_bckt_write_metadata_def rec_off_def atomic_cmpxchg_def insert_err_def
  insert_err_data_free_def tdb_htrie_rollback_bucket_def tdb_alloc_rollback_def
  tdb_htrie_bckt_sz_def htrie_bckt_bit2slot_def htrie_bckt_slot2bit_def
  tdb_htrie_bckt_burst_threshold_def htrie_bckt_acquire_empty_slot_def tdb_htrie_lookup_def
  tdb_htrie_walk_def tdb_htrie_node_visit_def node_fanout_def tdb_htrie_remove_def
  tdb_htrie_reclaim_bucket_def htrie_bckt_copy_metadata_def int_eq_ulong_def
  tdb_htrie_bscan_for_rec_def tdb_htrie_synchronize_generation_def tdb_htrie_bckt_burst_def
  tdb_htrie_alloc_index_def bzero_node_def burst_err_free_mem_def tdb_htrie_rollback_index_def
  tdb_htrie_rollback_data_def

lemma upt_0_numeral: "[0 ..< numeral n] = 0 # [Suc 0 ..< numeral n]"
  by (simp add: upt_rec [of 0])

lemma upt_1_numeral:
  "[Suc 0 ..< numeral n] = (if Suc 0 < numeral n then Suc 0 # [2 ..< numeral n] else [])"
  by (subst upt_rec) (simp add: numeral_2_eq_2)

lemma flz_from_numeral:
  "flz_from (numeral k) w =
     (if \<not> bit w (pred_numeral k) then pred_numeral k else flz_from (pred_numeral k) w)"
  by (simp add: numeral_eq_Suc)

lemmas eval_simps = upt_0_numeral upt_1_numeral flz_from_numeral

lemma db0_eq:
  "db0 = \<lparr>magic = TDB_MAGIC, flags = 0, rec_len = 0, root_bits = 4, generation = 0, ext_max = 16,
     dcache = (\<lambda>_. []), pcpu_generation = LONG_MAX, free_bckt_h = 0, free_bckt_t = 0,
     imem = (\<lambda>_. 0), col_map = (\<lambda>_. 0), bnext = (\<lambda>_. 0), rmem = (\<lambda>_. zero_cell),
     fix_q = [], data_q = [], alloc_log = [], g_burst_collision_no_mem = 0\<rparr>"
  by (simp add: db0_def tdb_htrie_init_def tdb_init_mapping_def zero_region_def cfg0_def env0_def
      consts_defs memset_root_def tdb_htrie_root_def tdb_hdr_sz_def tdb_htrie_root_sz_def
      TDB_HTRIE_VARLENRECS_def Let_def fun_eq_iff)

lemma db0_inplace_eq:
  "db0_inplace = \<lparr>magic = TDB_MAGIC, flags = 1, rec_len = 8, root_bits = 4, generation = 0,
     ext_max = 16, dcache = (\<lambda>_. []), pcpu_generation = LONG_MAX, free_bckt_h = 0,
     free_bckt_t = 0, imem = (\<lambda>_. 0), col_map = (\<lambda>_. 0), bnext = (\<lambda>_. 0),
     rmem = (\<lambda>_. zero_cell), fix_q = [], data_q = [], alloc_log = [],
     g_burst_collision_no_mem = 0\<rparr>"
  by (simp add: db0_inplace_def tdb_htrie_init_def tdb_init_mapping_def zero_region_def cfg0_def
      env0_def consts_defs memset_root_def tdb_htrie_root_def tdb_hdr_sz_def tdb_htrie_root_sz_def
      tdb_htrie_bckt_sz_def TDB_HTRIE_VARLENRECS_def Let_def fun_eq_iff)

lemmas db_defs = db1_def dbA_def dbF_def dbF_inplace_def full_slots_def db0_eq db0_inplace_eq
  cfg0_def zero_cell_def

subsection \<open>Insert\<close>

text \<open>
  C1 (the code departs from the claim). The first insert into the database \<open>db0\<close>, with an
  allocator that grants the bucket and the data, stores the record: the data is written at
  32768, slot 0 of the new bucket at 16384 holds the key and the offset of the data, and the
  root slot 5 links the bucket. The insert nevertheless returns \<^verbatim>\<open>NULL\<close>, as it does on a
  failure: after \<^verbatim>\<open>__htrie_insert_new_bckt\<close> has returned 0 it jumps to the label \<^verbatim>\<open>err\<close>.
\<close>

theorem insert_fresh_bucket_returns_null:
  "case tdb_htrie_insert 1 cfg0 dbA 0x15 (Some [1, 2, 3]) 3 of
     Inl e \<Rightarrow> False
   | Inr (r, l, d) \<Rightarrow>
       r = None \<and> l = 3
       \<and> shifts d (tdb_htrie_root cfg0 d) 5 = word_of_nat (TDB_O2DI 16384) OR TDB_HTRIE_DBIT
       \<and> col_map d 16384 = TDB_HTRIE_SLOT2BIT cfg0 (TDB_HTRIE_COLL_MAX cfg0)
       \<and> r_key (rmem d (SlotPtr 16384 0)) = 0x15
       \<and> r_off (rmem d (SlotPtr 16384 0)) = 32768
       \<and> r_data (rmem d (DataPtr 32768)) = [1, 2, 3]"
  by (simp add: db_defs model_defs consts_defs Let_def)

subsection \<open>Remove\<close>

text \<open>
  C2 (the code departs from the claim). In the database \<open>db1\<close>, which holds the key 0x15,
  \<^verbatim>\<open>tdb_htrie_remove\<close> of that key does not complete, whatever bucket the allocator grants:
  the compare-and-swap of the parent slot expects the byte offset that the descent returned,
  the slot holds the bucket's index with the data bit, so it fails; the retry enters
  \<^verbatim>\<open>tdb_htrie_descend\<close> with the \<open>bits\<close> of the first descent, and the \<^verbatim>\<open>BUG_ON\<close> at its
  entry fires.
\<close>

theorem remove_present_key_bug:
  "tdb_htrie_remove (Suc (Suc fuel)) cfg0 (db1\<lparr>fix_q := [20480]\<rparr>) 0x15 = Inl BUG"
  by (simp add: eval_simps db_defs model_defs consts_defs Let_def)

text \<open>
  C10 (the code departs from the claim). \<^verbatim>\<open>tdb_htrie_alloc_bucket\<close> does not return
  \<^verbatim>\<open>NULL\<close> when the allocator refuses: with an empty reclamation queue it returns the
  pointer for the offset 0 that \<^verbatim>\<open>tdb_alloc_fix\<close> returned, after initialising a bucket
  there. So \<^verbatim>\<open>tdb_htrie_remove\<close> does not return at its first check; for the key of
  \<open>db1\<close> it goes on to the descent, the copy and the compare-and-swap, and ends in the
  \<^verbatim>\<open>BUG_ON\<close> of the retry.
\<close>

theorem remove_alloc_refused_goes_on:
  "fst (tdb_htrie_alloc_bucket c (dbh\<lparr>free_bckt_h := 0, fix_q := []\<rparr>)) = Some 0
   \<and> tdb_htrie_remove (Suc (Suc fuel)) cfg0 (db1\<lparr>fix_q := []\<rparr>) 0x15 = Inl BUG"
  by (simp add: eval_simps db_defs model_defs consts_defs Let_def)

subsection \<open>Initialisation\<close>

text \<open>
  C4 (the code departs from the claim). \<^verbatim>\<open>tdb_init_mapping\<close> returns \<^verbatim>\<open>NULL\<close> for
  \<^verbatim>\<open>root_bits\<close> 8 and 12, whatever the other arguments are, and so does
  \<^verbatim>\<open>tdb_htrie_init\<close> on the fresh mapping: \<^verbatim>\<open>root_bits & ~TDB_HTRIE_BITS\<close> is not zero
  for them.
\<close>

theorem init_rejects_root_bits_8_12:
  "tdb_init_mapping c env p db_size 8 rl fl = Inr None
   \<and> tdb_init_mapping c env p db_size 12 rl fl = Inr None
   \<and> tdb_htrie_init c env zero_region db_size 8 rl fl = Inr None
   \<and> tdb_htrie_init c env zero_region db_size 12 rl fl = Inr None"
  by (simp add: tdb_htrie_init_def tdb_init_mapping_def zero_region_def consts_defs)

subsection \<open>Buckets\<close>

text \<open>
  C5, the claim as stated fails: the bucket that \<^verbatim>\<open>tdb_htrie_alloc_bucket\<close> returns in
  \<open>dbA\<close> has the most significant bit of its map clear.
\<close>

theorem fresh_bucket_top_bit_clear:
  "case tdb_htrie_alloc_bucket cfg0 dbA of
     (Some b, d) \<Rightarrow> b = 16384 \<and> \<not> bit (col_map d b) 63
   | (None, d) \<Rightarrow> False"
  by (simp add: db_defs model_defs)

subsection \<open>Data chunks\<close>

text \<open>
  C6 (the code departs from the claim). In a database of variable-length records
  (\<^verbatim>\<open>rec_len\<close> is 0) \<^verbatim>\<open>__htrie_dcache\<close> answers the freelist 0 for every size, and
  \<^verbatim>\<open>tdb_htrie_free_data\<close> pushes a chunk of any size, 1024 or 4096 bytes included, onto
  the freelist 0; nothing is returned to the block allocator.
\<close>

theorem dcache_varlen_always_first:
  "htrie_dcache (dbh\<lparr>rec_len := 0\<rparr>) sz = Some 0
   \<and> tdb_htrie_free_data c (dbh\<lparr>rec_len := 0\<rparr>) addr sz
       = Inr (dbh\<lparr>rec_len := 0, dcache := (dcache dbh)(0 := addr # dcache dbh 0)\<rparr>)"
  by (simp add: htrie_dcache_def tdb_htrie_free_data_def TDB_HTRIE_VARLENRECS_def)

subsection \<open>Burst\<close>

text \<open>
  C7 (the code departs from the claim). \<^verbatim>\<open>tdb_htrie_bckt_burst\<close> is run on the full
  bucket at 16384 of \<open>dbF\<close> as the insert of a key 0x35 runs it (\<open>bits\<close> is 4, the parent is
  the root at 192, \<open>old_off\<close> is the offset 16384 that the descent returned). The
  compare-and-swap of the parent slot is lost and the burst returns \<^verbatim>\<open>-EAGAIN\<close>. One bucket
  was newly allocated, at 20480, for the key 0x25. The error path puts two offsets on the
  reclamation queue, 8192 and 10240: what \<^verbatim>\<open>TDB_II2O\<close> makes of the new node's references
  to the original bucket and to the new one. The bucket at 20480 is not reclaimed, and an
  offset is reclaimed for the reference to the original bucket.
\<close>

theorem burst_failure_reclaims_decoded_refs:
  "case tdb_htrie_bckt_burst 1 cfg0 dbF 16384 16384 0x35 4 (tdb_htrie_root cfg0 dbF) of
     Inl e \<Rightarrow> False
   | Inr (r, d, n) \<Rightarrow>
       r = - EAGAIN \<and> fix_q d = []
       \<and> free_bckt_h d = 8192 \<and> bnext d 8192 = 10240 \<and> free_bckt_t d = 10240
       \<and> bnext d 10240 = 0
       \<and> alloc_log d = [Rollback_index sizeof_TdbHtrieNode]"
  by (simp add: eval_simps db_defs model_defs consts_defs Let_def)

subsection \<open>Walk\<close>

text \<open>
  C8 (the code departs from the claim). The database \<open>db1\<close> holds one live record, for the
  key 0x15 (see \<open>insert_fresh_bucket_returns_null\<close> for its place). \<^verbatim>\<open>tdb_htrie_walk\<close>
  returns 0 without a call of \<open>fn\<close>, whatever \<open>fn\<close> is: \<^verbatim>\<open>tdb_htrie_bucket_walk\<close> tests
  the map against the index \<^verbatim>\<open>__htrie_bckt_slot2bit(i)\<close>, not against the mask of that bit.
\<close>

theorem walk_skips_live_record:
  "tdb_htrie_walk 16 cfg0 db1 fn = Inr (0, [])"
  by (simp add: eval_simps db_defs model_defs consts_defs Let_def)

subsection \<open>Keys that were inserted are found\<close>

text \<open>The equations of the descent are unfolded where a lemma asks for them.\<close>

declare descend_retry.simps [simp del]


lemma dbit_neq0: "TDB_HTRIE_DBIT \<noteq> 0"
  by (simp add: TDB_HTRIE_DBIT_def)


lemma dbit_absorb: "(x OR TDB_HTRIE_DBIT) AND TDB_HTRIE_DBIT \<noteq> 0"
  by (simp add: dbit_neq0)













lemma hdr_same_refl: "hdr_same s s"
  by (simp add: hdr_same_def)

lemma hdr_same_trans: "hdr_same s s1 \<Longrightarrow> hdr_same s1 s2 \<Longrightarrow> hdr_same s s2"
  by (simp add: hdr_same_def)



lemma hdr_same_inplace: "hdr_same s s' \<Longrightarrow> inplace c s' = inplace c s"
  by (simp add: hdr_same_def inplace_def)

lemma root_ge:
  assumes "cfg_ok c"
  shows "64 \<le> tdb_htrie_root c s"
proof -
  have "0 < tdb_hdr_sz c s"
    using assms by (simp add: cfg_ok_def tdb_hdr_sz_def)
  then have "64 \<le> tdb_hdr_sz c s + 63"
    by simp
  then have "0 < (tdb_hdr_sz c s + 63) div 64"
    by (simp add: div_greater_zero_iff)
  then show ?thesis
    by (simp add: tdb_htrie_root_def TDB_HTRIE_IALIGN_def L1_CACHE_BYTES_def)
qed



subsubsection \<open>Descent from the root\<close>





lemma descend_bits_pos: "0 < bits \<Longrightarrow> tdb_htrie_descend c s key bits = Inl BUG"
  by (simp add: tdb_htrie_descend_def)




lemma fl_path_last: "fl_path nx h xs \<Longrightarrow> xs \<noteq> [] \<Longrightarrow> nx (last xs) = 0"
  by (induction xs arbitrary: h) (auto split: if_splits)





























subsubsection \<open>A burst does not succeed\<close>

lemma alloc_bucket_imem:
  "tdb_htrie_alloc_bucket c s = (ob, s1) \<Longrightarrow> imem s1 = imem s \<and> ob \<noteq> None"
  by (auto simp: tdb_htrie_alloc_bucket_def tdb_alloc_fix_def tdb_htrie_init_bucket_def Let_def
      split: if_splits list.splits)


























subsubsection \<open>Lookup\<close>


text \<open>An insert that returns a record went past the allocation of the data.\<close>

lemma insert_returned_proceeds:
  assumes "tdb_htrie_insert fuel c s key data len = Inr (Some r, l, s')"
  shows "insert_proceeds c s len"
proof -
  have f: "inplace c (tdb_htrie_observe_generation s) = inplace c s"
    by (simp add: inplace_def tdb_htrie_observe_generation_def)
  show ?thesis
    using assms unfolding tdb_htrie_insert_def insert_proceeds_def Let_def f
    by (auto simp: insert_err_def split: if_splits prod.splits)
qed


subsubsection \<open>Remove\<close>



subsubsection \<open>Initialisation\<close>














subsection \<open>Collision maps of buckets\<close>

lemma low_clear_iff: "low_clear c m \<longleftrightarrow> (\<forall>n < TDB_HTRIE_BURST_MIN_BITS c. \<not> bit m n)"
  by (auto simp: low_clear_def list_all_iff)

lemma popcount_low:
  assumes "\<forall>n < k. \<not> bit m n" "k \<le> 64"
  shows "popcount m \<le> 64 - k"
proof -
  have "[0 ..< 64] = [0 ..< k] @ [k ..< 64]"
    using assms(2) by (metis le_add_diff_inverse upt_add_eq_append zero_le)
  then have "popcount m = length (filter (bit m) [0 ..< k]) + length (filter (bit m) [k ..< 64])"
    by (simp add: popcount_def)
  moreover have "filter (bit m) [0 ..< k] = []"
    using assms(1) by (simp add: filter_empty_conv)
  moreover have "length (filter (bit m) [k ..< 64]) \<le> length [k ..< 64]"
    by (rule length_filter_le)
  ultimately show ?thesis
    by simp
qed

lemma top_bit: "bit (push_bit 63 1 :: 64 word) n \<longleftrightarrow> n = 63"
  by (auto simp add: bit_simps simp del: push_bit_of_1)

lemma map_ok_low:
  assumes c: "map_cfg c" and t: "bit m 63" and l: "low_clear c m"
  shows "map_ok c m"
proof -
  have k: "TDB_HTRIE_BURST_MIN_BITS c \<le> 64" "0 < TDB_HTRIE_BURST_MIN_BITS c"
    "TDB_HTRIE_COLL_MAX c = 63"
    using c by (simp_all add: map_cfg_def BITS_PER_LONG_def)
  have "popcount m \<le> 64 - TDB_HTRIE_BURST_MIN_BITS c"
    using l k(1) by (intro popcount_low) (simp_all add: low_clear_iff)
  then have "popcount m \<le> TDB_HTRIE_COLL_MAX c"
    using k by simp
  with t l show ?thesis
    by (simp add: map_ok_def BITS_PER_LONG_def)
qed

lemma map_ok_first:
  assumes c: "map_cfg c"
  shows "map_ok c (TDB_HTRIE_SLOT2BIT c (TDB_HTRIE_COLL_MAX c))"
proof -
  have cm: "TDB_HTRIE_COLL_MAX c = 63" and k: "TDB_HTRIE_BURST_MIN_BITS c \<le> 63"
    using c by (simp_all add: map_cfg_def BITS_PER_LONG_def)
  have "TDB_HTRIE_SLOT2BIT c (TDB_HTRIE_COLL_MAX c) = push_bit (TDB_HTRIE_COLL_MAX c) 1"
    using c unfolding map_cfg_def by blast
  then have e: "TDB_HTRIE_SLOT2BIT c 63 = push_bit 63 1"
    unfolding cm .
  have t: "bit (push_bit 63 1 :: 64 word) 63"
    by (simp only: top_bit)
  have l: "low_clear c (push_bit 63 1)"
    unfolding low_clear_iff top_bit using k by auto
  show ?thesis
    unfolding cm e using t l by (rule map_ok_low [OF c])
qed

lemma map_ok_claim:
  assumes c: "map_cfg c" and m: "map_ok c m"
    and t: "\<not> tdb_htrie_bckt_burst_threshold c k"
  shows "map_ok c (set_bit k m)"
proof -
  have "bit (set_bit k m) 63"
    using m by (simp add: map_ok_def BITS_PER_LONG_def bit_simps)
  moreover have "low_clear c (set_bit k m)"
    using m t by (auto simp: map_ok_def low_clear_iff bit_simps tdb_htrie_bckt_burst_threshold_def)
  ultimately show ?thesis
    by (rule map_ok_low [OF c])
qed

lemma insert_new_bckt_map:
  assumes "htrie_insert_new_bckt c dbh key bits node data len rec = Inr (r, d, rec')"
  shows "col_map d (the (fst (tdb_htrie_alloc_bucket c dbh)))
         = TDB_HTRIE_SLOT2BIT c (TDB_HTRIE_COLL_MAX c)"
proof -
  obtain ob s1 where a: "tdb_htrie_alloc_bucket c dbh = (ob, s1)"
    by (cases "tdb_htrie_alloc_bucket c dbh")
  from alloc_bucket_imem [OF a] obtain b where b: "ob = Some b"
    by auto
  obtain s2 rec1 where
    w: "htrie_bckt_write_metadata c s1 b key data len 0 rec = Inr (s2, rec1)"
    using assms a b
    by (cases "htrie_bckt_write_metadata c s1 b key data len 0 rec")
       (auto simp: htrie_insert_new_bckt_def)
  show ?thesis
    using assms a b w
    by (auto simp: htrie_insert_new_bckt_def atomic_cmpxchg_def Let_def
        tdb_htrie_rollback_bucket_def tdb_alloc_rollback_def split: if_splits)
qed

text \<open>What the copy of a record into a fresh bucket, as a remove makes it, leaves in the
  map: \<open>flz\<close> finds the bit 63, and the index 63 is what is ored into the map, so that the
  bits 0 to 5 are set and the most significant one is clear. The maps that a burst collects
  are made of such indexes too.\<close>

lemma copy_metadata_ors_index:
  "case htrie_bckt_copy_metadata cfg0 (db1\<lparr>col_map := (col_map db1)(20480 := 0)\<rparr>) 20480
          (SlotPtr 16384 0) of
     Inl e \<Rightarrow> False
   | Inr d \<Rightarrow> col_map d 20480 = 63 \<and> \<not> bit (col_map d 20480) 63"
  by (simp add: eval_simps db_defs model_defs consts_defs Let_def descend_retry.simps)

text \<open>
  C5, amended. \<^verbatim>\<open>TDB_HTRIE_COLL_MAX\<close> being the most significant bit and
  \<^verbatim>\<open>TDB_HTRIE_SLOT2BIT\<close> of it the mask of this bit, and the allocator granting the bucket:
  the bucket that \<^verbatim>\<open>tdb_htrie_alloc_bucket\<close> returns has the map 0, with the most significant
  bit clear and no bit set. The bucket that \<^verbatim>\<open>__htrie_insert_new_bckt\<close> has made for the
  first insert has the most significant bit of its map set, the bits below the burst threshold
  clear and at most \<^verbatim>\<open>TDB_HTRIE_COLL_MAX\<close> bits set; and where a bucket has such a map,
  the slot claim of \<^verbatim>\<open>__htrie_bckt_acquire_empty_slot\<close> leaves it with such a map. In such a
  map the bit 0 is a zero bit for \<^verbatim>\<open>flz\<close> to find. Nothing is said of the maps that a burst
  and the copy of a remove write.
\<close>

theorem bucket_map_kept:
  assumes c: "map_cfg c"
  shows "(bucket_granted c dbh \<longrightarrow>
            (case tdb_htrie_alloc_bucket c dbh of
               (Some b, d) \<Rightarrow>
                 col_map d b = 0 \<and> \<not> bit (col_map d b) (BITS_PER_LONG - 1)
                 \<and> popcount (col_map d b) = 0
             | (None, d) \<Rightarrow> False)
            \<and> (case htrie_insert_new_bckt c dbh key bits node data len rec of
                 Inl e \<Rightarrow> True
               | Inr (r, d, rec') \<Rightarrow>
                   map_ok c (col_map d (the (fst (tdb_htrie_alloc_bucket c dbh))))))
       \<and> (map_ok c (col_map dbh b') \<longrightarrow>
            (case htrie_bckt_acquire_empty_slot c dbh b' of
               Inl e \<Rightarrow> True
             | Inr (sl, d) \<Rightarrow> map_ok c (col_map d b'))
            \<and> \<not> bit (col_map dbh b') 0)"
proof (intro conjI impI)
  show "case tdb_htrie_alloc_bucket c dbh of
          (Some b, d) \<Rightarrow>
            col_map d b = 0 \<and> \<not> bit (col_map d b) (BITS_PER_LONG - 1)
            \<and> popcount (col_map d b) = 0
        | (None, d) \<Rightarrow> False"
    by (simp add: tdb_htrie_alloc_bucket_def tdb_alloc_fix_def tdb_htrie_init_bucket_def
        popcount_def Let_def split: list.split)
  show "case htrie_insert_new_bckt c dbh key bits node data len rec of
          Inl e \<Rightarrow> True
        | Inr (r, d, rec') \<Rightarrow> map_ok c (col_map d (the (fst (tdb_htrie_alloc_bucket c dbh))))"
    using insert_new_bckt_map [of c dbh key bits node data len rec] map_ok_first [OF c]
    by (auto split: sum.splits)
  show "case htrie_bckt_acquire_empty_slot c dbh b' of
          Inl e \<Rightarrow> True
        | Inr (sl, d) \<Rightarrow> map_ok c (col_map d b')" if m: "map_ok c (col_map dbh b')"
    using m map_ok_claim [OF c m]
    by (auto simp: htrie_bckt_acquire_empty_slot_def Let_def split: sum.splits)
  show "\<not> bit (col_map dbh b') 0" if m: "map_ok c (col_map dbh b')"
    using m c by (simp add: map_ok_def map_cfg_def low_clear_iff)
qed

lemma map_cfg0: "map_cfg cfg0"
  by (simp add: map_cfg_def cfg0_def BITS_PER_LONG_def)

theorem bucket_map_kept_witness:
  "map_cfg cfg0 \<and> bucket_granted cfg0 (db1\<lparr>fix_q := [20480]\<rparr>)
   \<and> map_ok cfg0 (col_map (db1\<lparr>fix_q := [20480]\<rparr>) 16384)
   \<and> (case tdb_htrie_alloc_bucket cfg0 (db1\<lparr>fix_q := [20480]\<rparr>) of
         (Some b, d) \<Rightarrow> b = 20480 \<and> col_map d b = 0
       | (None, d) \<Rightarrow> False)
   \<and> (case htrie_insert_new_bckt cfg0 (db1\<lparr>fix_q := [20480]\<rparr>) 0x16 0 192 (Some [4, 5, 6]) 3
              (Some (DataPtr 36864)) of
         Inl e \<Rightarrow> False
       | Inr (r, d, rec') \<Rightarrow>
           r = 0 \<and> col_map d 20480 = push_bit 63 1 \<and> map_ok cfg0 (col_map d 20480))
   \<and> (case htrie_bckt_acquire_empty_slot cfg0 (db1\<lparr>fix_q := [20480]\<rparr>) 16384 of
         Inl e \<Rightarrow> False
       | Inr (sl, d) \<Rightarrow>
           sl = 1 \<and> col_map d 16384 = push_bit 63 1 OR push_bit 62 1
           \<and> map_ok cfg0 (col_map d 16384))"
proof -
  let ?d = "db1\<lparr>fix_q := [20480]\<rparr>"
  have g: "bucket_granted cfg0 ?d"
    by (simp add: bucket_granted_def good_off_def db_defs model_defs consts_defs Let_def
        descend_retry.simps)
  have e: "col_map ?d 16384 = TDB_HTRIE_SLOT2BIT cfg0 (TDB_HTRIE_COLL_MAX cfg0)"
    by (simp add: db_defs model_defs consts_defs Let_def descend_retry.simps)
  have m: "map_ok cfg0 (col_map ?d 16384)"
    unfolding e by (rule map_ok_first [OF map_cfg0])
  have a: "case tdb_htrie_alloc_bucket cfg0 ?d of
             (Some b, d) \<Rightarrow> b = 20480 | (None, d) \<Rightarrow> False"
    "the (fst (tdb_htrie_alloc_bucket cfg0 ?d)) = 20480"
    by (simp_all add: db_defs model_defs consts_defs Let_def descend_retry.simps)
  have n: "case htrie_insert_new_bckt cfg0 ?d 0x16 0 192 (Some [4, 5, 6]) 3
                  (Some (DataPtr 36864)) of
             Inl e \<Rightarrow> False
           | Inr (r, d, rec') \<Rightarrow> r = 0 \<and> col_map d 20480 = push_bit 63 1"
    by (simp add: db_defs model_defs consts_defs Let_def descend_retry.simps)
  have q: "case htrie_bckt_acquire_empty_slot cfg0 ?d 16384 of
             Inl e \<Rightarrow> False
           | Inr (sl, d) \<Rightarrow> sl = 1 \<and> col_map d 16384 = push_bit 63 1 OR push_bit 62 1"
    by (simp add: eval_simps db_defs model_defs consts_defs Let_def descend_retry.simps)
  from bucket_map_kept [OF map_cfg0, of ?d "0x16" 0 192 "Some [4, 5, 6]" 3
      "Some (DataPtr 36864)" 16384] g m a n q map_cfg0
  show ?thesis
    by (auto split: sum.splits prod.splits option.splits)
qed

subsection \<open>Records in place\<close>

lemma create_rec_bad_len:
  "inplace c d \<Longrightarrow> rec_len d \<noteq> 0 \<Longrightarrow> len \<noteq> rec_len d
   \<Longrightarrow> tdb_htrie_create_rec c d p k data len
       = (if r_key (rmem d p) = 0 then Inl BUG_LEN else Inl BUG)"
  by (simp add: tdb_htrie_create_rec_def TDB_HTRIE_VARLENRECS_def)

lemma write_metadata_bad_len:
  "inplace c d \<Longrightarrow> rec_len d \<noteq> 0 \<Longrightarrow> len \<noteq> rec_len d
   \<Longrightarrow> htrie_bckt_write_metadata c d b k data len slot rec
       = (if r_key (rmem d (SlotPtr b slot)) = 0 then Inl BUG_LEN else Inl BUG)"
  by (simp add: htrie_bckt_write_metadata_def create_rec_bad_len)

lemma alloc_bucket_hdr:
  "tdb_htrie_alloc_bucket c d = (ob, d')
   \<Longrightarrow> ob \<noteq> None \<and> flags d' = flags d \<and> rec_len d' = rec_len d \<and> rmem d' = rmem d"
  by (auto simp: tdb_htrie_alloc_bucket_def tdb_alloc_fix_def tdb_htrie_init_bucket_def Let_def
      split: if_splits list.splits)

lemma alloc_bucket_observe:
  "fst (tdb_htrie_alloc_bucket c (tdb_htrie_observe_generation d))
   = fst (tdb_htrie_alloc_bucket c d)"
  by (simp add: tdb_htrie_alloc_bucket_def tdb_alloc_fix_def tdb_htrie_observe_generation_def
      Let_def split: list.splits)

lemma insert_new_bckt_bad_len:
  assumes "inplace c d" "rec_len d \<noteq> 0" "len \<noteq> rec_len d"
  shows "htrie_insert_new_bckt c d k bits node data len rec
         = (if r_key (rmem d (SlotPtr (the (fst (tdb_htrie_alloc_bucket c d))) 0)) = 0
            then Inl BUG_LEN else Inl BUG)"
proof -
  obtain ob d' where a: "tdb_htrie_alloc_bucket c d = (ob, d')"
    by (cases "tdb_htrie_alloc_bucket c d")
  from alloc_bucket_hdr [OF a] obtain b where b: "ob = Some b"
    and h: "flags d' = flags d" "rec_len d' = rec_len d" "rmem d' = rmem d"
    by auto
  from assms h have "inplace c d'" "rec_len d' \<noteq> 0" "len \<noteq> rec_len d'"
    by (simp_all add: inplace_def)
  then have "htrie_bckt_write_metadata c d' b k data len 0 rec
      = (if r_key (rmem d' (SlotPtr b 0)) = 0 then Inl BUG_LEN else Inl BUG)"
    by (rule write_metadata_bad_len)
  with a b h(3) show ?thesis
    by (simp add: htrie_insert_new_bckt_def)
qed

lemma insert_bad_len:
  assumes inpl: "inplace c dbh" and rl: "rec_len dbh \<noteq> 0"
    and len: "len \<noteq> 0" "len \<noteq> rec_len dbh"
    and desc: "tdb_htrie_descend c (tdb_htrie_observe_generation dbh) key 0 = Inr (o', bits, node)"
    and room: "o' = 0 \<or> \<not> tdb_htrie_bckt_burst_threshold c (flz c (col_map dbh o'))"
  shows "tdb_htrie_insert (Suc fuel) c dbh key data len
         = (if r_key (rmem dbh (first_slot c dbh o')) = 0 then Inl BUG_LEN else Inl BUG)"
proof -
  let ?d = "tdb_htrie_observe_generation dbh"
  have d: "inplace c ?d" "rec_len ?d \<noteq> 0" "len \<noteq> rec_len ?d" "col_map ?d = col_map dbh"
    "rmem ?d = rmem dbh"
    using inpl rl len by (simp_all add: tdb_htrie_observe_generation_def inplace_def)
  have "insert_retry (Suc fuel) (Suc fuel) c ?d key data len None 0
      = (if r_key (rmem dbh (first_slot c dbh o')) = 0 then Inl BUG_LEN else Inl BUG)"
  proof (cases "o' = 0")
    case True
    with desc d show ?thesis
      by (simp add: insert_new_bckt_bad_len first_slot_def alloc_bucket_observe)
  next
    case False
    with room have "\<not> tdb_htrie_bckt_burst_threshold c (flz c (col_map dbh o'))"
      by simp
    with False desc d show ?thesis
      by (simp add: write_metadata_bad_len first_slot_def)
  qed
  with inpl len show ?thesis
    by (simp add: tdb_htrie_insert_def tdb_htrie_observe_generation_def inplace_def)
qed


subsubsection \<open>The assertion on the length with the length of the database\<close>

lemma create_rec_no_len:
  "(inplace c s \<longrightarrow> len = rec_len s) \<Longrightarrow> tdb_htrie_create_rec c s p key data len \<noteq> Inl BUG_LEN"
  by (simp add: tdb_htrie_create_rec_def)

lemma write_metadata_no_len:
  "(inplace c s \<longrightarrow> len = rec_len s)
   \<Longrightarrow> htrie_bckt_write_metadata c s b key data len slot rec \<noteq> Inl BUG_LEN"
  using create_rec_no_len [of c s len "SlotPtr b slot" key data]
  by (auto simp: htrie_bckt_write_metadata_def split: sum.splits)

lemma create_rec_hdr:
  "tdb_htrie_create_rec c s p key data len = Inr s' \<Longrightarrow> hdr_same s s'"
  by (auto simp: tdb_htrie_create_rec_def memcpy_data_def hdr_same_def
      split: if_splits option.splits)

lemma write_metadata_hdr:
  "htrie_bckt_write_metadata c s b key data len slot rec = Inr (s', rec') \<Longrightarrow> hdr_same s s'"
  by (auto simp: htrie_bckt_write_metadata_def hdr_same_def dest: create_rec_hdr
      split: if_splits sum.splits)

lemma acquire_hdr:
  "htrie_bckt_acquire_empty_slot c s b = Inr (sl, s') \<Longrightarrow> hdr_same s s'"
  by (auto simp: htrie_bckt_acquire_empty_slot_def Let_def hdr_same_def split: if_splits)

lemma acquire_no_len: "htrie_bckt_acquire_empty_slot c s b \<noteq> Inl BUG_LEN"
  by (simp add: htrie_bckt_acquire_empty_slot_def Let_def)

lemma hdr_same_len:
  "hdr_same s s' \<Longrightarrow> (inplace c s' \<longrightarrow> len = rec_len s') = (inplace c s \<longrightarrow> len = rec_len s)"
  by (simp add: hdr_same_def inplace_def)

lemma insert_new_rec_no_len:
  "(inplace c s \<longrightarrow> len = rec_len s)
   \<Longrightarrow> htrie_bckt_insert_new_rec fuel c s b key data len slot rec \<noteq> Inl BUG_LEN"
proof (induction fuel arbitrary: s slot rec)
  case 0
  then show ?case by simp
next
  case (Suc fuel)
  show ?case
  proof (cases "htrie_bckt_write_metadata c s b key data len slot rec")
    case (Inl e)
    with write_metadata_no_len [OF Suc.prems, of b key data slot rec] show ?thesis
      by auto
  next
    case (Inr x)
    then obtain s1 rec1 where w: "htrie_bckt_write_metadata c s b key data len slot rec = Inr (s1, rec1)"
      by (cases x) auto
    have l1: "inplace c s1 \<longrightarrow> len = rec_len s1"
      using Suc.prems hdr_same_len [OF write_metadata_hdr [OF w]] by simp
    show ?thesis
    proof (cases "htrie_bckt_acquire_empty_slot c s1 b")
      case (Inl e)
      with w acquire_no_len [of c s1 b] show ?thesis
        by auto
    next
      case (Inr y)
      then obtain sl s2 where a: "htrie_bckt_acquire_empty_slot c s1 b = Inr (sl, s2)"
        by (cases y) auto
      have l2: "inplace c s2 \<longrightarrow> len = rec_len s2"
        using l1 hdr_same_len [OF acquire_hdr [OF a]] by simp
      show ?thesis
        using w a write_metadata_no_len [OF l2, of b key data slot rec1] Suc.IH [OF l2, of sl rec1]
        by (auto split: sum.splits)
    qed
  qed
qed

lemma insert_new_rec_hdr:
  "htrie_bckt_insert_new_rec fuel c s b key data len slot rec = Inr (r, s', rec')
   \<Longrightarrow> hdr_same s s'"
proof (induction fuel arbitrary: s slot rec)
  case 0
  then show ?case by simp
next
  case (Suc fuel)
  from Suc.prems obtain s1 rec1 where
    w: "htrie_bckt_write_metadata c s b key data len slot rec = Inr (s1, rec1)"
    by (cases "htrie_bckt_write_metadata c s b key data len slot rec") auto
  from Suc.prems w obtain sl s2 where a: "htrie_bckt_acquire_empty_slot c s1 b = Inr (sl, s2)"
    by (cases "htrie_bckt_acquire_empty_slot c s1 b") auto
  have h2: "hdr_same s s2"
    by (rule hdr_same_trans [OF write_metadata_hdr [OF w] acquire_hdr [OF a]])
  consider (neg) "sl < 0" | (eq) "\<not> sl < 0" "slot = sl" | (ne) "\<not> sl < 0" "slot \<noteq> sl"
    by blast
  then show ?case
  proof cases
    case neg
    with Suc.prems w a have "s' = s2" by simp
    with h2 show ?thesis by simp
  next
    case eq
    with Suc.prems w a obtain rec2 where
      "htrie_bckt_write_metadata c s2 b key data len slot rec1 = Inr (s', rec2)"
      by (cases "htrie_bckt_write_metadata c s2 b key data len slot rec1") auto
    from hdr_same_trans [OF h2 write_metadata_hdr [OF this]] show ?thesis .
  next
    case ne
    with Suc.prems w a
    have "htrie_bckt_insert_new_rec fuel c s2 b key data len sl rec1 = Inr (r, s', rec')"
      by simp
    from hdr_same_trans [OF h2 Suc.IH [OF this]] show ?thesis .
  qed
qed

lemma insert_new_bckt_no_len:
  assumes "inplace c s \<longrightarrow> len = rec_len s"
  shows "htrie_insert_new_bckt c s key bits node data len rec \<noteq> Inl BUG_LEN"
proof -
  obtain ob s1 where a: "tdb_htrie_alloc_bucket c s = (ob, s1)"
    by (cases "tdb_htrie_alloc_bucket c s")
  from alloc_bucket_hdr [OF a] obtain b where b: "ob = Some b"
    and h: "flags s1 = flags s" "rec_len s1 = rec_len s"
    by auto
  have "inplace c s1 \<longrightarrow> len = rec_len s1"
    using assms h by (simp add: inplace_def)
  from write_metadata_no_len [OF this, of b key data 0 rec] a b show ?thesis
    by (auto simp: htrie_insert_new_bckt_def atomic_cmpxchg_def Let_def
        split: sum.splits if_splits)
qed

lemma alloc_bucket_hdr_same: "tdb_htrie_alloc_bucket c s = (ob, s1) \<Longrightarrow> hdr_same s s1"
  by (auto simp: tdb_htrie_alloc_bucket_def tdb_alloc_fix_def tdb_htrie_init_bucket_def Let_def
      hdr_same_def split: if_splits list.splits)

lemma insert_new_bckt_hdr:
  assumes "htrie_insert_new_bckt c s key bits node data len rec = Inr (r, s', rec')"
  shows "hdr_same s s'"
proof -
  obtain ob s1 where a: "tdb_htrie_alloc_bucket c s = (ob, s1)"
    by (cases "tdb_htrie_alloc_bucket c s")
  have h1: "hdr_same s s1"
    by (rule alloc_bucket_hdr_same [OF a])
  show ?thesis
  proof (cases ob)
    case None
    with assms a h1 show ?thesis
      by (simp add: htrie_insert_new_bckt_def)
  next
    case (Some bk)
    obtain s2 rec1 where
      w: "htrie_bckt_write_metadata c s1 bk key data len 0 rec = Inr (s2, rec1)"
      using assms a Some
      by (cases "htrie_bckt_write_metadata c s1 bk key data len 0 rec")
         (auto simp: htrie_insert_new_bckt_def)
    have "hdr_same s2 s'"
      using assms a Some w
      by (auto simp: htrie_insert_new_bckt_def atomic_cmpxchg_def Let_def hdr_same_def
          tdb_htrie_rollback_bucket_def tdb_alloc_rollback_def split: if_splits)
    with hdr_same_trans [OF h1 write_metadata_hdr [OF w]] show ?thesis
      by (rule hdr_same_trans)
  qed
qed

lemma descend_retry_no_len: "descend_retry c s key bits node o' \<noteq> Inl BUG_LEN"
proof (induction c s key bits node o' rule: descend_retry.induct)
  case (1 c dbh key bits node o')
  show ?case
    by (subst descend_retry.simps) (use 1 in auto)
qed

lemma descend_no_len: "tdb_htrie_descend c s key bits \<noteq> Inl BUG_LEN"
  by (simp add: tdb_htrie_descend_def descend_retry_no_len)

lemma copy_metadata_no_len: "htrie_bckt_copy_metadata c s b rec \<noteq> Inl BUG_LEN"
  by (simp add: htrie_bckt_copy_metadata_def Let_def create_rec_no_len)

lemma move_records_no_len:
  "htrie_bckt_move_records c s b m bits in' nm nmf ss \<noteq> Inl BUG_LEN"
proof (induction ss arbitrary: s nm)
  case Nil
  then show ?case by simp
next
  case (Cons x ss)
  show ?case
    using Cons.IH copy_metadata_no_len [of c _ _ "SlotPtr b (int x)"]
    by (auto simp: Let_def split: sum.splits prod.splits option.splits)
qed

lemma burst_replace_map_no_len:
  "burst_replace_map fuel c s b bits in' m nm \<noteq> Inl BUG_LEN"
proof (induction fuel arbitrary: s m nm)
  case 0
  then show ?case by simp
next
  case (Suc fuel)
  show ?case
    using Suc.IH move_records_no_len [of c s b _ bits in' nm True]
    by (auto simp: Let_def split: sum.splits prod.splits)
qed

lemma reclaim_bucket_no_len: "tdb_htrie_reclaim_bucket s b \<noteq> Inl BUG_LEN"
  by (simp add: tdb_htrie_reclaim_bucket_def)

lemma burst_free_mem_no_len: "burst_free_mem s in' is \<noteq> Inl BUG_LEN"
proof (induction "is" arbitrary: s)
  case Nil
  then show ?case by simp
next
  case (Cons i "is")
  show ?case
    using Cons.IH reclaim_bucket_no_len [of s]
    by (auto split: sum.splits)
qed

lemma burst_err_free_mem_no_len: "burst_err_free_mem s in' ret node \<noteq> Inl BUG_LEN"
  using burst_free_mem_no_len [of s in']
  by (auto simp: burst_err_free_mem_def split: sum.splits)

lemma alloc_index_no_len: "tdb_htrie_alloc_index s \<noteq> Inl BUG_LEN"
  by (simp add: tdb_htrie_alloc_index_def split: prod.splits)

lemma burst_no_len: "tdb_htrie_bckt_burst fuel c s b old_off key bits node \<noteq> Inl BUG_LEN"
  using alloc_index_no_len [of s] move_records_no_len [of c _ b "col_map s b" bits _ 0 False]
    burst_err_free_mem_no_len burst_replace_map_no_len [of fuel c _ b bits]
  by (auto simp: tdb_htrie_bckt_burst_def Let_def split: sum.splits prod.splits if_splits)

lemma burst_loop_no_len:
  "insert_burst_loop n fuel c s b old_off key bits node \<noteq> Inl BUG_LEN"
proof (induction n arbitrary: s bits node)
  case 0
  then show ?case by simp
next
  case (Suc n)
  show ?case
    using Suc.IH burst_no_len [of fuel c s b old_off key bits node]
    by (auto split: sum.splits prod.splits)
qed

lemma burst_loop_bits:
  "insert_burst_loop n fuel c s b old_off key bits node = Inr (To_retry b2, s') \<Longrightarrow> bits \<le> b2"
proof (induction n arbitrary: s bits node)
  case 0
  then show ?case by simp
next
  case (Suc n)
  from Suc.prems show ?case
    by (auto split: sum.splits prod.splits if_splits dest!: Suc.IH)
qed

lemma insert_retry_bits_no_len:
  "0 < bits \<Longrightarrow> insert_retry n fuel c s key data len rec bits \<noteq> Inl BUG_LEN"
  by (cases n) (simp_all add: descend_bits_pos)

lemma insert_err_no_len: "insert_err s len \<noteq> Inl BUG_LEN"
  and insert_err_data_free_no_len: "insert_err_data_free c s len \<noteq> Inl BUG_LEN"
  by (simp_all add: insert_err_def insert_err_data_free_def)


lemma insert_retry_no_len:
  "(inplace c s \<longrightarrow> len = rec_len s)
   \<Longrightarrow> insert_retry n fuel c s key data len rec bits \<noteq> Inl BUG_LEN"
proof (induction n arbitrary: s rec bits)
  case 0
  then show ?case by simp
next
  case (Suc n)
  note l = Suc.prems
  show ?case
  proof (cases "tdb_htrie_descend c s key bits")
    case (Inl e)
    with descend_no_len [of c s key bits] show ?thesis
      by auto
  next
    case (Inr x)
    then obtain o' bits1 node where d: "tdb_htrie_descend c s key bits = Inr (o', bits1, node)"
      by (cases x) auto
    show ?thesis
    proof (cases "o' = 0")
      case True
      show ?thesis
      proof (cases "htrie_insert_new_bckt c s key bits1 node data len rec")
        case (Inl e)
        with insert_new_bckt_no_len [OF l, of key bits1 node data rec] d True show ?thesis
          by auto
      next
        case (Inr y)
        then obtain r s1 rec1 where
          nb: "htrie_insert_new_bckt c s key bits1 node data len rec = Inr (r, s1, rec1)"
          by (cases y) auto
        have l1: "inplace c s1 \<longrightarrow> len = rec_len s1"
          using l hdr_same_len [OF insert_new_bckt_hdr [OF nb]] by simp
        show ?thesis
          using d True nb Suc.IH [OF l1, of rec1 bits1] insert_err_no_len
            insert_err_data_free_no_len
          by simp
      qed
    next
      case False
      let ?bf = "flz c (col_map s o')"
      let ?ins = "if \<not> tdb_htrie_bckt_burst_threshold c ?bf
                  then htrie_bckt_insert_new_rec fuel c s o' key data len
                         (htrie_bckt_bit2slot c ?bf) rec
                  else Inr (- 1, s, rec)"
      show ?thesis
      proof (cases ?ins)
        case (Inl e)
        with insert_new_rec_no_len [OF l, of fuel o' key data "htrie_bckt_bit2slot c ?bf" rec]
        have "e \<noteq> BUG_LEN"
          by (auto split: if_splits)
        with d False Inl show ?thesis
          by (simp add: Let_def)
      next
        case (Inr y)
        then obtain r s1 rec1 where ins: "?ins = Inr (r, s1, rec1)"
          by (cases y) auto
        have tail: "(case insert_burst_loop fuel fuel c s1 o' o' key bits1 node of
                       Inl e \<Rightarrow> Inl e
                     | Inr (To_err_data_free, dbh2) \<Rightarrow> insert_err_data_free c dbh2 len
                     | Inr (To_retry bits2, dbh2) \<Rightarrow>
                         insert_retry n fuel c dbh2 key data len rec1 bits2) \<noteq> Inl BUG_LEN"
          if b: "\<not> bits1 < TDB_HTRIE_BITS"
        proof (cases "insert_burst_loop fuel fuel c s1 o' o' key bits1 node")
          case (Inl e)
          with burst_loop_no_len [of fuel fuel c s1 o' o' key bits1 node] show ?thesis
            by auto
        next
          case (Inr z)
          then obtain ex s2 where
            bl: "insert_burst_loop fuel fuel c s1 o' o' key bits1 node = Inr (ex, s2)"
            by (cases z) auto
          show ?thesis
          proof (cases ex)
            case To_err_data_free
            with bl show ?thesis
              by (simp add: insert_err_data_free_no_len)
          next
            case (To_retry b2)
            have "0 < b2"
              using burst_loop_bits [OF bl [unfolded To_retry]] b
              by (simp add: TDB_HTRIE_BITS_def)
            with bl To_retry show ?thesis
              by (simp add: insert_retry_bits_no_len)
          qed
        qed
        show ?thesis
          using d False ins tail insert_err_data_free_no_len
          by (simp add: Let_def)
      qed
    qed
  qed
qed

lemma alloc_data_hdr: "tdb_htrie_alloc_data c s len = (o', len1, s') \<Longrightarrow> hdr_same s s'"
  by (auto simp: tdb_htrie_alloc_data_def tdb_alloc_data_def Let_def hdr_same_def
      split: option.splits list.splits)

lemma insert_no_len:
  assumes "inplace c s \<longrightarrow> len = rec_len s"
  shows "tdb_htrie_insert fuel c s key data len \<noteq> Inl BUG_LEN"
proof (cases "len = 0")
  case True
  then show ?thesis
    by (simp add: tdb_htrie_insert_def)
next
  case len: False
  let ?s1 = "tdb_htrie_observe_generation s"
  have h1: "hdr_same s ?s1"
    by (simp add: hdr_same_def tdb_htrie_observe_generation_def)
  have l1: "inplace c ?s1 \<longrightarrow> len = rec_len ?s1"
    using assms hdr_same_len [OF h1] by simp
  show ?thesis
  proof (cases "inplace c ?s1")
    case True
    with len insert_retry_no_len [OF l1, of fuel fuel key data None 0] show ?thesis
      by (simp add: tdb_htrie_insert_def Let_def)
  next
    case False
    obtain o' len1 s2 where ad: "tdb_htrie_alloc_data c ?s1 len = (o', len1, s2)"
      by (cases "tdb_htrie_alloc_data c ?s1 len")
    have n2: "\<not> inplace c s2"
      using False hdr_same_inplace [OF alloc_data_hdr [OF ad]] by simp
    show ?thesis
    proof (cases "tdb_htrie_create_rec c s2 (DataPtr o') key data len1")
      case (Inl e)
      with create_rec_no_len [of c s2 len1 "DataPtr o'" key data] n2 have "e \<noteq> BUG_LEN"
        by auto
      with len False ad Inl show ?thesis
        by (simp add: tdb_htrie_insert_def Let_def insert_err_no_len)
    next
      case (Inr s3)
      have "\<not> inplace c s3"
        using n2 hdr_same_inplace [OF create_rec_hdr [OF Inr]] by simp
      then have "insert_retry fuel fuel c s3 key data len1 (Some (DataPtr o')) 0 \<noteq> Inl BUG_LEN"
        by (intro insert_retry_no_len) simp
      with len False ad Inr show ?thesis
        by (simp add: tdb_htrie_insert_def Let_def insert_err_no_len)
    qed
  qed
qed


text \<open>
  C9, the claim as stated fails: in the database of 8-byte records in place whose bucket
  under the root slot 0 is full, with an allocator that refuses the index node, an insert of
  3 bytes returns \<^verbatim>\<open>NULL\<close> and no assertion fires: the burst returns \<^verbatim>\<open>-ENOMEM\<close> before
  any record is written.
\<close>

theorem inplace_insert_bad_len_returns_null:
  "case tdb_htrie_insert 1 cfg0 dbF_inplace 0x10 (Some [1, 2, 3]) 3 of
     Inl e \<Rightarrow> False
   | Inr (r, l, d) \<Rightarrow> r = None \<and> l = 3 \<and> l \<noteq> rec_len dbF_inplace \<and> inplace cfg0 dbF_inplace"
  by (simp add: eval_simps db_defs model_defs consts_defs Let_def descend_retry.simps)

text \<open>
  C9, amended. In a database of records in place (\<^verbatim>\<open>rec_len\<close> is not 0) whose allocator
  grants the bucket that the insert may ask for, an insert with a length that is neither 0
  nor \<^verbatim>\<open>rec_len\<close> trips an assertion of \<^verbatim>\<open>tdb_htrie_create_rec\<close> whenever it gets to write
  the record, which is when the descent finds no bucket, or finds a bucket in which \<open>flz\<close> is
  not below the burst threshold: the assertion on the length where the key of the slot that
  it writes is 0, the assertion on that key, which comes first, otherwise. With the length
  \<^verbatim>\<open>rec_len\<close> no insert ends in the assertion on the length, whatever its key, its data and
  the path it takes.
\<close>

theorem inplace_insert_len_assertion:
  assumes inpl: "inplace c dbh" and rl: "rec_len dbh \<noteq> 0"
    and len: "len \<noteq> 0" "len \<noteq> rec_len dbh"
    and grant: "bucket_granted c dbh"
    and desc: "tdb_htrie_descend c (tdb_htrie_observe_generation dbh) key 0 = Inr (o', bits, node)"
    and room: "o' = 0 \<or> \<not> tdb_htrie_bckt_burst_threshold c (flz c (col_map dbh o'))"
  shows "tdb_htrie_insert (Suc fuel) c dbh key data len
           = (if r_key (rmem dbh (first_slot c dbh o')) = 0 then Inl BUG_LEN else Inl BUG)
         \<and> tdb_htrie_insert fuel2 c dbh key2 data2 (rec_len dbh) \<noteq> Inl BUG_LEN"
  using insert_bad_len [OF inpl rl len desc room] insert_no_len [of c dbh "rec_len dbh"]
  by simp

theorem inplace_insert_len_assertion_witness:
  "inplace cfg0 (db0_inplace\<lparr>fix_q := [16384]\<rparr>) \<and> rec_len (db0_inplace\<lparr>fix_q := [16384]\<rparr>) \<noteq> 0
   \<and> (3::nat) \<noteq> 0 \<and> 3 \<noteq> rec_len (db0_inplace\<lparr>fix_q := [16384]\<rparr>)
   \<and> bucket_granted cfg0 (db0_inplace\<lparr>fix_q := [16384]\<rparr>)
   \<and> tdb_htrie_descend cfg0 (tdb_htrie_observe_generation (db0_inplace\<lparr>fix_q := [16384]\<rparr>)) 0x10 0
       = Inr (0, 0, tdb_htrie_root cfg0 db0_inplace)
   \<and> first_slot cfg0 (db0_inplace\<lparr>fix_q := [16384]\<rparr>) 0 = SlotPtr 16384 0
   \<and> tdb_htrie_insert (Suc 0) cfg0 (db0_inplace\<lparr>fix_q := [16384]\<rparr>) 0x10 (Some [1, 2, 3]) 3
       = Inl BUG_LEN
   \<and> tdb_htrie_insert (Suc 0) cfg0 (db0_inplace\<lparr>fix_q := [16384]\<rparr>) 0x10
        (Some [1, 2, 3, 4, 5, 6, 7, 8]) (rec_len (db0_inplace\<lparr>fix_q := [16384]\<rparr>)) \<noteq> Inl BUG_LEN"
proof -
  let ?d = "db0_inplace\<lparr>fix_q := [16384]\<rparr>"
  have a: "inplace cfg0 ?d" "rec_len ?d \<noteq> 0" "(3::nat) \<noteq> 0" "3 \<noteq> rec_len ?d"
    by (simp_all add: db_defs model_defs)
  have g: "bucket_granted cfg0 ?d"
    by (simp add: bucket_granted_def good_off_def db_defs model_defs consts_defs)
  have b: "tdb_htrie_descend cfg0 (tdb_htrie_observe_generation ?d) 0x10 0
       = Inr (0, 0, tdb_htrie_root cfg0 db0_inplace)"
    by (simp add: db_defs model_defs consts_defs descend_retry.simps)
  have s: "first_slot cfg0 ?d 0 = SlotPtr 16384 0"
    by (simp add: first_slot_def db_defs model_defs)
  have k: "r_key (rmem ?d (SlotPtr 16384 0)) = 0"
    by (simp add: db_defs)
  from inplace_insert_len_assertion [OF a g b, of 0 "Some [1, 2, 3]" "Suc 0" "0x10"
      "Some [1, 2, 3, 4, 5, 6, 7, 8]"] a g b s k
  show ?thesis by simp
qed

end
